theory Spec2Isabelle
  imports Complex_Main
begin

section \<open>TradeMonitoringService: values\<close>

text \<open>
  The service works on JavaScript numbers, which are IEEE 754 doubles. A number is
  \<open>NaN\<close>, an infinity, or a finite value held as a real; \<open>NaN\<close> also stands for a
  numeric property that is \<open>undefined\<close>, which behaves the same way under \<open>||\<close>,
  \<open>!\<close>, arithmetic and comparison. The sign of zero is not kept: nothing in the
  service tells the two zeros apart. A product or a difference is the exact result
  rounded to the nearest double, ties to the even significand, and an infinity when the
  rounded result is out of range. A \<open>Date\<close> is its time value in milliseconds.
\<close>

datatype number = NaN | Infinity | NegInfinity | Num real

definition pow2 :: "int \<Rightarrow> real" where
  "pow2 e = 2 powi e"

definition round_half_even :: "real \<Rightarrow> int" where
  "round_half_even z =
     (let f = \<lfloor>z\<rfloor>; d = z - of_int f
      in if d < 1 / 2 then f else if 1 / 2 < d then f + 1 else if even f then f else f + 1)"

definition binade :: "real \<Rightarrow> int option" where
  \<comment> \<open>the exponent of the doubles around \<open>x\<close>: the least \<open>e\<close> from \<open>-1022\<close> (which also
      holds the subnormal numbers) to \<open>1023\<close> with \<open>|x| < 2 ^ (e + 1)\<close>\<close>
  "binade x = find (\<lambda>e. \<bar>x\<bar> < pow2 (e + 1)) [- 1022..1023]"

definition signed_infinity :: "real \<Rightarrow> number" where
  "signed_infinity x = (if 0 < x then Infinity else NegInfinity)"

definition round_double :: "real \<Rightarrow> number" where
  \<comment> \<open>the double nearest to \<open>x\<close>: a multiple of \<open>2 ^ (e - 52)\<close> in the binade \<open>e\<close>\<close>
  "round_double x =
     (case binade x of
        None \<Rightarrow> signed_infinity x
      | Some e \<Rightarrow>
          (let q = pow2 (e - 52); y = of_int (round_half_even (x / q)) * q
           in if pow2 1024 \<le> \<bar>y\<bar> then signed_infinity x else Num y))"

fun truthy :: "number \<Rightarrow> bool" where
  "truthy NaN = False"
| "truthy (Num r) = (r \<noteq> 0)"
| "truthy _ = True"

definition num_or :: "number \<Rightarrow> number \<Rightarrow> number" where
  \<comment> \<open>\<open>a || b\<close> on numbers\<close>
  "num_or a b = (if truthy a then a else b)"

fun js_mul :: "number \<Rightarrow> number \<Rightarrow> number" where
  "js_mul (Num a) (Num b) = round_double (a * b)"
| "js_mul (Num a) Infinity = (if a = 0 then NaN else signed_infinity a)"
| "js_mul (Num a) NegInfinity = (if a = 0 then NaN else signed_infinity (- a))"
| "js_mul Infinity (Num b) = (if b = 0 then NaN else signed_infinity b)"
| "js_mul NegInfinity (Num b) = (if b = 0 then NaN else signed_infinity (- b))"
| "js_mul Infinity Infinity = Infinity"
| "js_mul Infinity NegInfinity = NegInfinity"
| "js_mul NegInfinity Infinity = NegInfinity"
| "js_mul NegInfinity NegInfinity = Infinity"
| "js_mul _ _ = NaN"

fun js_sub :: "number \<Rightarrow> number \<Rightarrow> number" where
  "js_sub (Num a) (Num b) = round_double (a - b)"
| "js_sub (Num a) Infinity = NegInfinity"
| "js_sub (Num a) NegInfinity = Infinity"
| "js_sub Infinity (Num b) = Infinity"
| "js_sub NegInfinity (Num b) = NegInfinity"
| "js_sub Infinity NegInfinity = Infinity"
| "js_sub NegInfinity Infinity = NegInfinity"
| "js_sub _ _ = NaN"

fun js_le :: "number \<Rightarrow> number \<Rightarrow> bool" where
  "js_le NaN _ = False"
| "js_le _ NaN = False"
| "js_le NegInfinity _ = True"
| "js_le _ Infinity = True"
| "js_le (Num a) (Num b) = (a \<le> b)"
| "js_le _ _ = False"

fun js_lt :: "number \<Rightarrow> number \<Rightarrow> bool" where
  "js_lt NaN _ = False"
| "js_lt _ NaN = False"
| "js_lt Infinity _ = False"
| "js_lt _ NegInfinity = False"
| "js_lt (Num a) (Num b) = (a < b)"
| "js_lt _ _ = True"

definition js_ge :: "number \<Rightarrow> number \<Rightarrow> bool" where
  "js_ge a b = js_le b a"

definition js_gt :: "number \<Rightarrow> number \<Rightarrow> bool" where
  "js_gt a b = js_lt b a"

definition new_Date :: "number \<Rightarrow> number" where
  \<comment> \<open>the time value of \<open>new Date(v)\<close>, for \<open>v\<close> a number or the time value of the date
      that \<open>v\<close> is: out of range it is \<open>NaN\<close> (an invalid date), and a fraction of a
      millisecond is cut off\<close>
  "new_Date v =
     (case v of
        Num t \<Rightarrow>
          if \<bar>t\<bar> \<le> 8640000000000000
          then Num (of_int (if 0 \<le> t then \<lfloor>t\<rfloor> else \<lceil>t\<rceil>))
          else NaN
      | _ \<Rightarrow> NaN)"

definition str_or :: "string option \<Rightarrow> string \<Rightarrow> string" where
  \<comment> \<open>\<open>a || b\<close> on strings: \<open>undefined\<close> and the empty string are falsy\<close>
  "str_or a b = (case a of None \<Rightarrow> b | Some s \<Rightarrow> if s = [] then b else s)"

datatype side = Buy | Sell

datatype status = Active | Exited | Failed

datatype ExitType = TP1 | TP2 | STOP_LOSS | MAX_EXIT_TIME | TRAILING_STOP

text \<open>A thrown value: an \<open>Error\<close> with its message, or anything else.\<close>

datatype thrown = Error string | NonError

record MonitoredTrade =
  mongo_id :: string
  tradeId :: string
  userId :: string
  safeAddress :: string
  networkKey :: string
  tokenSymbol :: string
  tokenMentioned :: string
  signalMessage :: side
  entryPrice :: number
  currentPrice :: "number option"
  tp1 :: number
  tp2 :: number
  sl :: number
  maxExitTime :: number
  entryTxHash :: string
  entryAmount :: string
  executedAt :: number
  status :: status
  lastPriceCheck :: "real option"
  priceCheckCount :: nat
  highestPriceSinceEntry :: number
  trailingStopPrice :: number
  trailingStopEnabled :: bool

record ExitCondition =
  etype :: ExitType
  cond_currentPrice :: number
  targetPrice :: "number option"
  triggered :: bool

section \<open>Trailing stop and exit conditions\<close>

definition updateTrailingStopData :: "MonitoredTrade \<Rightarrow> number \<Rightarrow> MonitoredTrade" where
  "updateTrailingStopData trade price =
     (if \<not> trailingStopEnabled trade then trade
      else case signalMessage trade of
        Buy \<Rightarrow>
          if js_gt price (highestPriceSinceEntry trade)
          then trade\<lparr>highestPriceSinceEntry := price,
                     trailingStopPrice := js_mul price (round_double (99 / 100))\<rparr>
          else trade
      | Sell \<Rightarrow>
          if js_lt price (highestPriceSinceEntry trade)
          then trade\<lparr>highestPriceSinceEntry := price,
                     trailingStopPrice := js_mul price (round_double (101 / 100))\<rparr>
          else trade)"

definition fired :: "ExitType \<Rightarrow> number \<Rightarrow> number option \<Rightarrow> ExitCondition" where
  "fired k price target =
     \<lparr>etype = k, cond_currentPrice = price, targetPrice = target, triggered = True\<rparr>"

definition checkExitConditions :: "MonitoredTrade \<Rightarrow> number \<Rightarrow> real \<Rightarrow> ExitCondition" where
  "checkExitConditions trade price now =
     (if js_ge (Num now) (maxExitTime trade) then fired MAX_EXIT_TIME price None
      else case signalMessage trade of
        Buy \<Rightarrow>
          if trailingStopEnabled trade \<and> js_le price (trailingStopPrice trade)
          then fired TRAILING_STOP price (Some (trailingStopPrice trade))
          else if js_le price (sl trade) then fired STOP_LOSS price (Some (sl trade))
          else if js_ge price (tp2 trade) then fired TP2 price (Some (tp2 trade))
          else if js_ge price (tp1 trade) then fired TP1 price (Some (tp1 trade))
          else \<lparr>etype = TP1, cond_currentPrice = price, targetPrice = None,
                 triggered = False\<rparr>
      | Sell \<Rightarrow>
          if trailingStopEnabled trade \<and> js_ge price (trailingStopPrice trade)
          then fired TRAILING_STOP price (Some (trailingStopPrice trade))
          else if js_ge price (sl trade) then fired STOP_LOSS price (Some (sl trade))
          else if js_le price (tp2 trade) then fired TP2 price (Some (tp2 trade))
          else if js_le price (tp1 trade) then fired TP1 price (Some (tp1 trade))
          else \<lparr>etype = TP1, cond_currentPrice = price, targetPrice = None,
                 triggered = False\<rparr>)"

section \<open>The priority table of the per-position check\<close>

text \<open>
  The table as the specification words it: five rows in priority order, each an exit
  kind with its predicate for the position's side; the first row whose predicate holds
  gives the exit kind.
\<close>

definition toward_loss :: "side \<Rightarrow> number \<Rightarrow> number \<Rightarrow> bool" where
  \<comment> \<open>\<open>price \<le> level\<close> for a buy, \<open>price \<ge> level\<close> for a sell\<close>
  "toward_loss s price level = (case s of Buy \<Rightarrow> js_le price level | Sell \<Rightarrow> js_ge price level)"

definition toward_profit :: "side \<Rightarrow> number \<Rightarrow> number \<Rightarrow> bool" where
  \<comment> \<open>\<open>price \<ge> level\<close> for a buy, \<open>price \<le> level\<close> for a sell\<close>
  "toward_profit s price level = (case s of Buy \<Rightarrow> js_ge price level | Sell \<Rightarrow> js_le price level)"

definition priority_table :: "MonitoredTrade \<Rightarrow> number \<Rightarrow> real \<Rightarrow> (ExitType \<times> bool) list" where
  "priority_table trade price now =
     [(MAX_EXIT_TIME, js_ge (Num now) (maxExitTime trade)),
      (TRAILING_STOP, trailingStopEnabled trade
                        \<and> toward_loss (signalMessage trade) price (trailingStopPrice trade)),
      (STOP_LOSS, toward_loss (signalMessage trade) price (sl trade)),
      (TP2, toward_profit (signalMessage trade) price (tp2 trade)),
      (TP1, toward_profit (signalMessage trade) price (tp1 trade))]"

definition first_true :: "(ExitType \<times> bool) list \<Rightarrow> ExitType option" where
  "first_true rows = map_option fst (find snd rows)"

definition exit_kind :: "ExitCondition \<Rightarrow> ExitType option" where
  \<comment> \<open>the kind an exit condition fires with, if it fires\<close>
  "exit_kind c = (if triggered c then Some (etype c) else None)"

section \<open>Documents, collaborator calls and the service state\<close>

text \<open>
  \<open>TradeData\<close> is the request object of \<open>addTradeToMonitoring\<close> (typed \<open>any\<close> in the
  source); a document of the trades collection has the same properties and its own
  \<open>_id\<close>, \<open>status\<close>, \<open>executedAt\<close> and \<open>createdAt\<close>. A string property that the
  source defaults with \<open>||\<close> may be absent.
\<close>

record TradeData =
  td_tradeId :: string
  td_userId :: string
  td_safeAddress :: string
  td_networkKey :: string
  td_tokenSymbol :: "string option"
  td_tokenMentioned :: string
  td_signalMessage :: side
  td_entryPrice :: number
  td_currentPrice :: number
  td_tp1 :: number
  td_tp2 :: number
  td_sl :: number
  td_maxExitTime :: number
  td_entryTxHash :: "string option"
  td_entryAmount :: "string option"

record StoredTrade = TradeData +
  doc_id :: string
  doc_executedAt :: "number option"
  doc_createdAt :: number
  doc_status :: status

record ExitTradeData =
  x_tradeId :: string
  x_userId :: string
  x_safeAddress :: string
  x_networkKey :: string
  x_tokenMentioned :: string
  x_signalMessage :: side
  x_currentPrice :: number
  x_entryPrice :: number
  x_entryAmount :: string

record ExitData =
  exitType :: ExitType
  exitPrice :: number
  exitAmount :: string
  profitLoss :: number
  exitedAt :: real

datatype extra = ExitInfo ExitData | FailInfo string real

text \<open>
  Trade objects are shared by reference between the registry and the tasks that monitor
  them: a reference is an index into \<open>heap\<close>, and the service only holds references it
  has allocated. \<open>monitoredTrades\<close> is the \<open>Map\<close> from \<open>_id\<close> to trade object, in
  insertion order. \<open>effects\<close> records, in order, the calls to the database and the
  trade executor that write, and the events emitted; the queries \<open>getActiveTrades\<close> and
  \<open>getCurrentPrice\<close> only supply inputs. \<open>liveTimers\<close> are the interval timers that
  \<open>setInterval\<close> has scheduled and \<open>clearInterval\<close> has not cancelled.
\<close>

datatype emitted =
    TradeAdded nat
  | TradeExited nat ExitCondition number ExitData
  | TradeExitFailed nat ExitCondition thrown

datatype effect =
    StoreExecutedTrade TradeData
  | ExecuteTrade ExitTradeData string
  | UpdateTradeStatus string status extra
  | Emit emitted

record Service =
  heap :: "MonitoredTrade list"
  monitoredTrades :: "(string \<times> nat) list"
  monitoringInterval :: "nat option"
  dbSyncInterval :: "nat option"
  isRunning :: bool
  liveTimers :: "nat list"
  nextTimer :: nat
  effects :: "effect list"

definition new_service :: Service where
  "new_service =
     \<lparr>heap = [], monitoredTrades = [], monitoringInterval = None, dbSyncInterval = None,
      isRunning = False, liveTimers = [], nextTimer = 0, effects = []\<rparr>"

fun map_set :: "string \<Rightarrow> nat \<Rightarrow> (string \<times> nat) list \<Rightarrow> (string \<times> nat) list" where
  "map_set k v [] = [(k, v)]"
| "map_set k v ((k', v') # rest) =
     (if k' = k then (k, v) # rest else (k', v') # map_set k v rest)"

definition map_delete :: "string \<Rightarrow> (string \<times> nat) list \<Rightarrow> (string \<times> nat) list" where
  "map_delete k m = filter (\<lambda>e. fst e \<noteq> k) m"

definition map_has :: "string \<Rightarrow> (string \<times> nat) list \<Rightarrow> bool" where
  "map_has k m = (find (\<lambda>e. fst e = k) m \<noteq> None)"

definition map_values :: "(string \<times> nat) list \<Rightarrow> nat list" where
  "map_values m = map snd m"

definition set_new :: "string \<Rightarrow> MonitoredTrade \<Rightarrow> Service \<Rightarrow> Service" where
  \<comment> \<open>\<open>this.monitoredTrades.set(key, obj)\<close> for a fresh object \<open>obj\<close>\<close>
  "set_new key obj svc =
     svc\<lparr>heap := heap svc @ [obj],
         monitoredTrades := map_set key (length (heap svc)) (monitoredTrades svc)\<rparr>"

definition emit :: "emitted \<Rightarrow> Service \<Rightarrow> Service" where
  "emit ev svc = svc\<lparr>effects := effects svc @ [Emit ev]\<rparr>"

definition call :: "effect \<Rightarrow> Service \<Rightarrow> Service" where
  "call c svc = svc\<lparr>effects := effects svc @ [c]\<rparr>"

section \<open>Loading, synchronising and adding trades\<close>

definition monitoredTrade_from_db :: "StoredTrade \<Rightarrow> MonitoredTrade" where
  \<comment> \<open>the object literal of \<open>loadActiveTradesFromDatabase\<close> and of \<open>syncWithDatabase\<close>\<close>
  "monitoredTrade_from_db trade =
     \<lparr>mongo_id = doc_id trade,
      tradeId = td_tradeId trade,
      userId = td_userId trade,
      safeAddress = td_safeAddress trade,
      networkKey = td_networkKey trade,
      tokenSymbol = str_or (td_tokenSymbol trade) (td_tokenMentioned trade),
      tokenMentioned = td_tokenMentioned trade,
      signalMessage = td_signalMessage trade,
      entryPrice = num_or (td_entryPrice trade) (td_currentPrice trade),
      currentPrice = None,
      tp1 = td_tp1 trade,
      tp2 = td_tp2 trade,
      sl = td_sl trade,
      maxExitTime = new_Date (td_maxExitTime trade),
      entryTxHash = str_or (td_entryTxHash trade) [],
      entryAmount = str_or (td_entryAmount trade) ''0'',
      executedAt =
        new_Date (case doc_executedAt trade of None \<Rightarrow> doc_createdAt trade | Some d \<Rightarrow> d),
      status = doc_status trade,
      lastPriceCheck = None,
      priceCheckCount = 0,
      highestPriceSinceEntry = num_or (td_entryPrice trade) (td_currentPrice trade),
      trailingStopPrice =
        js_mul (num_or (td_entryPrice trade) (td_currentPrice trade)) (round_double (99 / 100)),
      trailingStopEnabled = True\<rparr>"

definition monitoredTrade_from_request :: "string \<Rightarrow> TradeData \<Rightarrow> real \<Rightarrow> MonitoredTrade" where
  \<comment> \<open>the object literal of \<open>addTradeToMonitoring\<close>\<close>
  "monitoredTrade_from_request mongoId tradeData now =
     \<lparr>mongo_id = mongoId,
      tradeId = td_tradeId tradeData,
      userId = td_userId tradeData,
      safeAddress = td_safeAddress tradeData,
      networkKey = td_networkKey tradeData,
      tokenSymbol = str_or (td_tokenSymbol tradeData) (td_tokenMentioned tradeData),
      tokenMentioned = td_tokenMentioned tradeData,
      signalMessage = td_signalMessage tradeData,
      entryPrice = num_or (td_entryPrice tradeData) (td_currentPrice tradeData),
      currentPrice = None,
      tp1 = td_tp1 tradeData,
      tp2 = td_tp2 tradeData,
      sl = td_sl tradeData,
      maxExitTime = new_Date (td_maxExitTime tradeData),
      entryTxHash = str_or (td_entryTxHash tradeData) [],
      entryAmount = str_or (td_entryAmount tradeData) ''0'',
      executedAt = Num now,
      status = Active,
      lastPriceCheck = None,
      priceCheckCount = 0,
      highestPriceSinceEntry = num_or (td_entryPrice tradeData) (td_currentPrice tradeData),
      trailingStopPrice =
        js_mul (num_or (td_entryPrice tradeData) (td_currentPrice tradeData)) (round_double (99 / 100)),
      trailingStopEnabled = True\<rparr>"

fun load_each :: "StoredTrade list \<Rightarrow> Service \<Rightarrow> Service" where
  "load_each [] svc = svc"
| "load_each (trade # rest) svc =
     load_each rest (set_new (doc_id trade) (monitoredTrade_from_db trade) svc)"

definition loadActiveTradesFromDatabase :: "thrown + StoredTrade list \<Rightarrow> Service \<Rightarrow> Service" where
  \<comment> \<open>the argument is what \<open>getActiveTrades\<close> settles with; a rejection is caught and logged\<close>
  "loadActiveTradesFromDatabase activeTrades svc =
     (case activeTrades of Inl e \<Rightarrow> svc | Inr trades \<Rightarrow> load_each trades svc)"

fun sync_each :: "StoredTrade list \<Rightarrow> Service \<Rightarrow> Service" where
  "sync_each [] svc = svc"
| "sync_each (trade # rest) svc =
     sync_each rest
       (if \<not> map_has (doc_id trade) (monitoredTrades svc)
        then emit (TradeAdded (length (heap svc)))
               (set_new (doc_id trade) (monitoredTrade_from_db trade) svc)
        else svc)"

definition syncWithDatabase :: "thrown + StoredTrade list \<Rightarrow> Service \<Rightarrow> Service" where
  "syncWithDatabase activeTrades svc =
     (case activeTrades of Inl e \<Rightarrow> svc | Inr trades \<Rightarrow> sync_each trades svc)"

definition addTradeToMonitoring ::
  "TradeData \<Rightarrow> thrown + string \<Rightarrow> real \<Rightarrow> Service \<Rightarrow> Service \<times> thrown option" where
  \<comment> \<open>\<open>stored\<close> is what \<open>storeExecutedTrade\<close> settles with; the result is the new state and
      the error the call rejects with, if any\<close>
  "addTradeToMonitoring tradeData stored now svc =
     (let svc1 = call (StoreExecutedTrade tradeData) svc in
      case stored of
        Inl e \<Rightarrow> (svc1, Some e)
      | Inr mongoId \<Rightarrow>
          (emit (TradeAdded (length (heap svc1)))
             (set_new mongoId (monitoredTrade_from_request mongoId tradeData now) svc1),
           None))"

section \<open>Starting and stopping\<close>

definition setInterval :: "Service \<Rightarrow> nat \<times> Service" where
  "setInterval svc =
     (nextTimer svc,
      svc\<lparr>liveTimers := liveTimers svc @ [nextTimer svc], nextTimer := Suc (nextTimer svc)\<rparr>)"

definition clearInterval :: "nat \<Rightarrow> Service \<Rightarrow> Service" where
  "clearInterval h svc = svc\<lparr>liveTimers := removeAll h (liveTimers svc)\<rparr>"

definition start :: "thrown + StoredTrade list \<Rightarrow> Service \<Rightarrow> Service" where
  \<comment> \<open>\<open>start\<close> up to its initial monitoring run; the argument is what \<open>getActiveTrades\<close>
      settles with\<close>
  "start activeTrades svc =
     (if isRunning svc then svc
      else
        let svc1 = loadActiveTradesFromDatabase activeTrades svc;
            (h1, svc2) = setInterval svc1;
            svc3 = svc2\<lparr>monitoringInterval := Some h1\<rparr>;
            (h2, svc4) = setInterval svc3;
            svc5 = svc4\<lparr>dbSyncInterval := Some h2\<rparr>
        in svc5\<lparr>isRunning := True\<rparr>)"

definition stop :: "Service \<Rightarrow> Service" where
  "stop svc =
     (if \<not> isRunning svc then svc
      else
        let svc1 = (case monitoringInterval svc of
                      Some h \<Rightarrow> (clearInterval h svc)\<lparr>monitoringInterval := None\<rparr>
                    | None \<Rightarrow> svc);
            svc2 = (case dbSyncInterval svc1 of
                      Some h \<Rightarrow> (clearInterval h svc1)\<lparr>dbSyncInterval := None\<rparr>
                    | None \<Rightarrow> svc1)
        in svc2\<lparr>isRunning := False, monitoredTrades := []\<rparr>)"

section \<open>The exit routine\<close>

text \<open>
  \<open>executeTradeExit\<close> suspends at three calls: the executor's \<open>executeTrade\<close>, the
  database's \<open>updateTradeStatus\<close> with status exited, and, in the handler of its
  \<open>catch\<close>, \<open>updateTradeStatus\<close> with status failed. The functions below are the
  stretches of code between these points. \<open>parseFloat\<close> is the language's own function
  and is a parameter throughout. The listeners of the emitted events are outside the
  service and are taken not to throw.
\<close>

definition opposite :: "side \<Rightarrow> side" where
  "opposite s = (if s = Buy then Sell else Buy)"

definition exitTradeData :: "MonitoredTrade \<Rightarrow> ExitCondition \<Rightarrow> ExitTradeData" where
  "exitTradeData trade cond =
     \<lparr>x_tradeId = tradeId trade,
      x_userId = userId trade,
      x_safeAddress = safeAddress trade,
      x_networkKey = networkKey trade,
      x_tokenMentioned = tokenMentioned trade,
      x_signalMessage = opposite (signalMessage trade),
      x_currentPrice = cond_currentPrice cond,
      x_entryPrice = entryPrice trade,
      x_entryAmount = entryAmount trade\<rparr>"

definition calc_profitLoss :: "(string \<Rightarrow> number) \<Rightarrow> MonitoredTrade \<Rightarrow> ExitCondition \<Rightarrow> number" where
  "calc_profitLoss parseFloat trade cond =
     (let entryValue = js_mul (parseFloat (entryAmount trade)) (entryPrice trade);
          exitValue = js_mul (parseFloat (entryAmount trade)) (cond_currentPrice cond)
      in if signalMessage trade = Buy then js_sub exitValue entryValue
         else js_sub entryValue exitValue)"

definition exitData_of ::
  "(string \<Rightarrow> number) \<Rightarrow> MonitoredTrade \<Rightarrow> ExitCondition \<Rightarrow> real \<Rightarrow> ExitData" where
  "exitData_of parseFloat trade cond now =
     \<lparr>exitType = etype cond,
      exitPrice = cond_currentPrice cond,
      exitAmount = entryAmount trade,
      profitLoss = calc_profitLoss parseFloat trade cond,
      exitedAt = now\<rparr>"

definition message :: "thrown \<Rightarrow> string" where
  \<comment> \<open>\<open>error instanceof Error ? error.message : "Unknown error"\<close>\<close>
  "message e = (case e of Error m \<Rightarrow> m | NonError \<Rightarrow> ''Unknown error'')"

definition exit_begin :: "nat \<Rightarrow> ExitCondition \<Rightarrow> Service \<Rightarrow> Service" where
  \<comment> \<open>from the entry of \<open>executeTradeExit\<close> to the call of \<open>executeTrade\<close>\<close>
  "exit_begin r cond svc =
     (let trade = heap svc ! r;
          svc1 = svc\<lparr>monitoredTrades := map_delete (mongo_id trade) (monitoredTrades svc)\<rparr>
      in call (ExecuteTrade (exitTradeData trade cond) (entryAmount trade)) svc1)"

definition exit_write_exited ::
  "(string \<Rightarrow> number) \<Rightarrow> nat \<Rightarrow> ExitCondition \<Rightarrow> real \<Rightarrow> Service \<Rightarrow> Service" where
  \<comment> \<open>\<open>executeTrade\<close> has resolved: up to the call of \<open>updateTradeStatus\<close>\<close>
  "exit_write_exited parseFloat r cond now svc =
     (let trade = heap svc ! r
      in call (UpdateTradeStatus (mongo_id trade) Exited
                 (ExitInfo (exitData_of parseFloat trade cond now))) svc)"

definition exit_emit_exited ::
  "(string \<Rightarrow> number) \<Rightarrow> nat \<Rightarrow> ExitCondition \<Rightarrow> real \<Rightarrow> Service \<Rightarrow> Service" where
  \<comment> \<open>the update has resolved: the event, with the exit data built before the update\<close>
  "exit_emit_exited parseFloat r cond exited svc =
     (let trade = heap svc ! r
      in emit (TradeExited r cond (calc_profitLoss parseFloat trade cond)
                 (exitData_of parseFloat trade cond exited)) svc)"

definition exit_write_failed :: "nat \<Rightarrow> thrown \<Rightarrow> real \<Rightarrow> Service \<Rightarrow> Service" where
  \<comment> \<open>the handler of the \<open>catch\<close>, up to its call of \<open>updateTradeStatus\<close>\<close>
  "exit_write_failed r e now svc =
     call (UpdateTradeStatus (mongo_id (heap svc ! r)) Failed (FailInfo (message e) now)) svc"

definition exit_emit_failed :: "nat \<Rightarrow> ExitCondition \<Rightarrow> thrown \<Rightarrow> Service \<Rightarrow> Service" where
  "exit_emit_failed r cond e svc = emit (TradeExitFailed r cond e) svc"

text \<open>
  What the three calls of one run of \<open>executeTradeExit\<close> settle with (\<open>None\<close>: the call
  resolves; \<open>Some e\<close>: it rejects with \<open>e\<close>), and the clock at the two status writes.
\<close>

record ExitEnv =
  executeTrade_result :: "thrown option"
  updateExited_result :: "thrown option"
  updateFailed_result :: "thrown option"
  time_exited :: real
  time_failed :: real

definition exit_catch ::
  "nat \<Rightarrow> ExitCondition \<Rightarrow> thrown \<Rightarrow> ExitEnv \<Rightarrow> Service \<Rightarrow> Service \<times> thrown option" where
  "exit_catch r cond e env svc =
     (let svc1 = exit_write_failed r e (time_failed env) svc
      in case updateFailed_result env of
           Some e' \<Rightarrow> (svc1, Some e')
         | None \<Rightarrow> (exit_emit_failed r cond e svc1, None))"

definition executeTradeExit ::
  "(string \<Rightarrow> number) \<Rightarrow> nat \<Rightarrow> ExitCondition \<Rightarrow> ExitEnv \<Rightarrow> Service
     \<Rightarrow> Service \<times> thrown option" where
  \<comment> \<open>one run with no other task in between; the result is the new state and the error
      the call rejects with, if any\<close>
  "executeTradeExit parseFloat r cond env svc =
     (let svc1 = exit_begin r cond svc
      in case executeTrade_result env of
           Some e \<Rightarrow> exit_catch r cond e env svc1
         | None \<Rightarrow>
             (let svc2 = exit_write_exited parseFloat r cond (time_exited env) svc1
              in (case updateExited_result env of
                    Some e \<Rightarrow> exit_catch r cond e env svc2
                  | None \<Rightarrow>
                      (exit_emit_exited parseFloat r cond (time_exited env) svc2, None))))"

section \<open>The per-position monitoring step and the manual exit\<close>

definition observe :: "nat \<Rightarrow> number \<Rightarrow> real \<Rightarrow> Service \<Rightarrow> Service" where
  \<comment> \<open>the price is recorded on the trade object and the trailing stop follows it\<close>
  "observe r price now svc =
     svc\<lparr>heap := (heap svc)
        [r := updateTrailingStopData
                ((heap svc ! r)\<lparr>currentPrice := Some price, lastPriceCheck := Some now,
                               priceCheckCount := Suc (priceCheckCount (heap svc ! r))\<rparr>)
                price]\<rparr>"

definition falsy_price :: "number option \<Rightarrow> bool" where
  \<comment> \<open>\<open>!currentPrice\<close> for the \<open>number | null\<close> that \<open>getCurrentPrice\<close> resolves with\<close>
  "falsy_price fetched = (case fetched of None \<Rightarrow> True | Some price \<Rightarrow> \<not> truthy price)"

definition monitorSingleTrade ::
  "(string \<Rightarrow> number) \<Rightarrow> nat \<Rightarrow> number option \<Rightarrow> real \<Rightarrow> ExitEnv \<Rightarrow> Service \<Rightarrow> Service" where
  \<comment> \<open>\<open>fetched\<close> is what \<open>getCurrentPrice\<close> resolves with (\<open>None\<close> is \<open>null\<close>, also after a
      rejected fetch) and \<open>now\<close> the clock when it does; an error of the exit routine is
      caught and logged\<close>
  "monitorSingleTrade parseFloat r fetched now env svc =
     (case fetched of
        None \<Rightarrow> svc
      | Some price \<Rightarrow>
          if \<not> truthy price then svc
          else
            let svc1 = observe r price now svc;
                exitCondition = checkExitConditions (heap svc1 ! r) price now
            in if triggered exitCondition
               then fst (executeTradeExit parseFloat r exitCondition env svc1)
               else svc1)"

definition manual_condition :: "MonitoredTrade \<Rightarrow> ExitCondition" where
  \<comment> \<open>the exit condition that \<open>manualExitTrade\<close> builds\<close>
  "manual_condition trade =
     \<lparr>etype = TP1,
      cond_currentPrice =
        (case currentPrice trade of
           None \<Rightarrow> entryPrice trade
         | Some p \<Rightarrow> num_or p (entryPrice trade)),
      targetPrice = None,
      triggered = True\<rparr>"

definition find_trade :: "string \<Rightarrow> Service \<Rightarrow> nat option" where
  \<comment> \<open>\<open>Array.from(this.monitoredTrades.values()).find((t) => t.tradeId === tradeId)\<close>\<close>
  "find_trade tid svc =
     find (\<lambda>r. tradeId (heap svc ! r) = tid) (map_values (monitoredTrades svc))"

definition manualExitTrade ::
  "(string \<Rightarrow> number) \<Rightarrow> string \<Rightarrow> string \<Rightarrow> ExitEnv \<Rightarrow> Service \<Rightarrow> Service \<times> bool" where
  "manualExitTrade parseFloat tid reason env svc =
     (case find_trade tid svc of
        None \<Rightarrow> (svc, False)
      | Some r \<Rightarrow>
          (case executeTradeExit parseFloat r (manual_condition (heap svc ! r)) env svc of
             (svc', None) \<Rightarrow> (svc', True)
           | (svc', Some e) \<Rightarrow> (svc', False)))"

section \<open>Interleaved runs\<close>

text \<open>
  The methods are asynchronous: a call runs until it suspends at a collaborator's call,
  and other calls run before it resumes. A task is a suspended call: what it waits for,
  and the local variables it resumes with. An event is a timer firing, an operator's
  call, or a collaborator's call settling for the task of a given index.
\<close>

datatype caller = ByTick | ByManual

datatype task =
    AwaitPrice nat
  | AwaitExecuteTrade caller nat ExitCondition
  | AwaitUpdateExited caller nat ExitCondition real
  | AwaitUpdateFailed caller nat ExitCondition thrown
  | AwaitActiveTrades
  | Returned "bool option"

record System =
  service :: Service
  tasks :: "task list"

datatype event =
    MonitorAllTrades
  | SyncWithDatabase
  | ManualExitTrade string string
  | PriceSettled nat "number option" real
  | ExecuteTradeSettled nat "thrown option" real
  | UpdateSettled nat "thrown option" real
  | ActiveTradesSettled nat "thrown + StoredTrade list"

definition finish :: "caller \<Rightarrow> thrown option \<Rightarrow> task" where
  \<comment> \<open>\<open>monitorSingleTrade\<close> catches and logs what \<open>executeTradeExit\<close> rejects with;
      \<open>manualExitTrade\<close> returns whether it resolved\<close>
  "finish c outcome =
     (case c of ByTick \<Rightarrow> Returned None | ByManual \<Rightarrow> Returned (Some (outcome = None)))"

definition on_price :: "nat \<Rightarrow> number option \<Rightarrow> real \<Rightarrow> Service \<Rightarrow> Service \<times> task" where
  "on_price r fetched now svc =
     (case fetched of
        None \<Rightarrow> (svc, Returned None)
      | Some price \<Rightarrow>
          if \<not> truthy price then (svc, Returned None)
          else
            let svc1 = observe r price now svc;
                exitCondition = checkExitConditions (heap svc1 ! r) price now
            in if triggered exitCondition
               then (exit_begin r exitCondition svc1, AwaitExecuteTrade ByTick r exitCondition)
               else (svc1, Returned None))"

definition on_executed ::
  "(string \<Rightarrow> number) \<Rightarrow> caller \<Rightarrow> nat \<Rightarrow> ExitCondition \<Rightarrow> thrown option \<Rightarrow> real \<Rightarrow> Service
     \<Rightarrow> Service \<times> task" where
  "on_executed parseFloat c r cond result now svc =
     (case result of
        Some e \<Rightarrow> (exit_write_failed r e now svc, AwaitUpdateFailed c r cond e)
      | None \<Rightarrow> (exit_write_exited parseFloat r cond now svc, AwaitUpdateExited c r cond now))"

definition on_updated ::
  "(string \<Rightarrow> number) \<Rightarrow> task \<Rightarrow> thrown option \<Rightarrow> real \<Rightarrow> Service \<Rightarrow> Service \<times> task" where
  "on_updated parseFloat t result now svc =
     (case t of
        AwaitUpdateExited c r cond exited \<Rightarrow>
          (case result of
             None \<Rightarrow> (exit_emit_exited parseFloat r cond exited svc, finish c None)
           | Some e \<Rightarrow> (exit_write_failed r e now svc, AwaitUpdateFailed c r cond e))
      | AwaitUpdateFailed c r cond e \<Rightarrow>
          (case result of
             None \<Rightarrow> (exit_emit_failed r cond e svc, finish c None)
           | Some e' \<Rightarrow> (svc, finish c (Some e')))
      | _ \<Rightarrow> (svc, t))"

definition resume :: "nat \<Rightarrow> Service \<times> task \<Rightarrow> System \<Rightarrow> System" where
  "resume k st sys = \<lparr>service = fst st, tasks = (tasks sys)[k := snd st]\<rparr>"

definition spawn :: "Service \<times> task list \<Rightarrow> System \<Rightarrow> System" where
  "spawn st sys = \<lparr>service = fst st, tasks = tasks sys @ snd st\<rparr>"

definition step :: "(string \<Rightarrow> number) \<Rightarrow> event \<Rightarrow> System \<Rightarrow> System" where
  "step parseFloat ev sys =
     (let svc = service sys in
      case ev of
        MonitorAllTrades \<Rightarrow>
          spawn (svc, map AwaitPrice (map_values (monitoredTrades svc))) sys
      | SyncWithDatabase \<Rightarrow> spawn (svc, [AwaitActiveTrades]) sys
      | ManualExitTrade tid reason \<Rightarrow>
          (case find_trade tid svc of
             None \<Rightarrow> spawn (svc, [Returned (Some False)]) sys
           | Some r \<Rightarrow>
               spawn (exit_begin r (manual_condition (heap svc ! r)) svc,
                      [AwaitExecuteTrade ByManual r (manual_condition (heap svc ! r))]) sys)
      | PriceSettled k fetched now \<Rightarrow>
          (if k < length (tasks sys)
           then (case tasks sys ! k of
                   AwaitPrice r \<Rightarrow> resume k (on_price r fetched now svc) sys
                 | _ \<Rightarrow> sys)
           else sys)
      | ExecuteTradeSettled k result now \<Rightarrow>
          (if k < length (tasks sys)
           then (case tasks sys ! k of
                   AwaitExecuteTrade c r cond \<Rightarrow>
                     resume k (on_executed parseFloat c r cond result now svc) sys
                 | _ \<Rightarrow> sys)
           else sys)
      | UpdateSettled k result now \<Rightarrow>
          (if k < length (tasks sys)
           then resume k (on_updated parseFloat (tasks sys ! k) result now svc) sys
           else sys)
      | ActiveTradesSettled k activeTrades \<Rightarrow>
          (if k < length (tasks sys)
           then (case tasks sys ! k of
                   AwaitActiveTrades \<Rightarrow>
                     resume k (syncWithDatabase activeTrades svc, Returned None) sys
                 | _ \<Rightarrow> sys)
           else sys))"

fun run :: "(string \<Rightarrow> number) \<Rightarrow> event list \<Rightarrow> System \<Rightarrow> System" where
  "run parseFloat [] sys = sys"
| "run parseFloat (ev # evs) sys = run parseFloat evs (step parseFloat ev sys)"

definition exit_events :: "nat \<Rightarrow> ExitEnv \<Rightarrow> event list" where
  \<comment> \<open>the events that settle the calls of task \<open>k\<close>'s exit as \<open>env\<close> says\<close>
  "exit_events k env =
     (case executeTrade_result env of
        Some e \<Rightarrow>
          [ExecuteTradeSettled k (Some e) (time_failed env),
           UpdateSettled k (updateFailed_result env) (time_failed env)]
      | None \<Rightarrow>
          ExecuteTradeSettled k None (time_exited env)
          # (case updateExited_result env of
               None \<Rightarrow> [UpdateSettled k None (time_exited env)]
             | Some e \<Rightarrow>
                 [UpdateSettled k (Some e) (time_failed env),
                  UpdateSettled k (updateFailed_result env) (time_failed env)]))"

definition executions_of :: "string \<Rightarrow> effect list \<Rightarrow> effect list" where
  \<comment> \<open>the calls of the executor for the position of a given \<open>tradeId\<close>\<close>
  "executions_of tid es =
     filter (\<lambda>c. case c of ExecuteTrade d a \<Rightarrow> x_tradeId d = tid | _ \<Rightarrow> False) es"

definition terminal_writes_of :: "string \<Rightarrow> effect list \<Rightarrow> effect list" where
  \<comment> \<open>the calls \<open>updateTradeStatus(id, "exited" | "failed", ...)\<close> for a given \<open>_id\<close>\<close>
  "terminal_writes_of i es =
     filter (\<lambda>c. case c of
                   UpdateTradeStatus j st x \<Rightarrow> j = i \<and> (st = Exited \<or> st = Failed)
                 | _ \<Rightarrow> False) es"

definition recorded_exits :: "effect list \<Rightarrow> (string \<times> ExitData) list" where
  \<comment> \<open>the exit records written with status exited, each with the \<open>_id\<close> it is written for\<close>
  "recorded_exits es =
     concat (map (\<lambda>c. case c of
                          UpdateTradeStatus i st x \<Rightarrow>
                            (case x of
                               ExitInfo d \<Rightarrow> if st = Exited then [(i, d)] else []
                             | FailInfo m t \<Rightarrow> [])
                        | _ \<Rightarrow> []) es)"

definition failed_writes :: "effect list \<Rightarrow> (string \<times> string) list" where
  \<comment> \<open>the writes of status failed: the \<open>_id\<close> and the error message\<close>
  "failed_writes es =
     concat (map (\<lambda>c. case c of
                          UpdateTradeStatus i st x \<Rightarrow>
                            (case x of
                               ExitInfo d \<Rightarrow> []
                             | FailInfo m t \<Rightarrow> if st = Failed then [(i, m)] else [])
                        | _ \<Rightarrow> []) es)"

definition favorable_le :: "side \<Rightarrow> number \<Rightarrow> number \<Rightarrow> bool" where
  \<comment> \<open>\<open>b\<close> is \<open>a\<close> or more favourable: higher for a buy, lower for a sell\<close>
  "favorable_le s a b = (a = b \<or> (case s of Buy \<Rightarrow> js_lt a b | Sell \<Rightarrow> js_lt b a))"

definition armed :: "MonitoredTrade \<Rightarrow> bool" where
  \<comment> \<open>the trailing stop stands one percent off the extremum, on the losing side\<close>
  "armed trade =
     (trailingStopPrice trade
        = js_mul (highestPriceSinceEntry trade)
            (case signalMessage trade of
               Buy \<Rightarrow> round_double (99 / 100)
             | Sell \<Rightarrow> round_double (101 / 100)))"

definition executor_calls :: "effect list \<Rightarrow> (ExitTradeData \<times> string) list" where
  \<comment> \<open>the calls of \<open>executeTrade\<close>, each with its two arguments\<close>
  "executor_calls es =
     concat (map (\<lambda>c. case c of ExecuteTrade d a \<Rightarrow> [(d, a)] | _ \<Rightarrow> []) es)"

definition pnl_by_values :: "side \<Rightarrow> number \<Rightarrow> number \<Rightarrow> number \<Rightarrow> number" where
  \<comment> \<open>profit and loss as the exit state machine of the specification computes it: the
      difference of the exit value and the entry value\<close>
  "pnl_by_values s amount entry exit_price =
     (case s of
        Buy \<Rightarrow> js_sub (js_mul amount exit_price) (js_mul amount entry)
      | Sell \<Rightarrow> js_sub (js_mul amount entry) (js_mul amount exit_price))"

definition pnl_exact :: "side \<Rightarrow> real \<Rightarrow> real \<Rightarrow> real \<Rightarrow> real" where
  \<comment> \<open>the profit-and-loss law over the reals\<close>
  "pnl_exact s amount entry exit_price =
     (case s of
        Buy \<Rightarrow> amount * (exit_price - entry)
      | Sell \<Rightarrow> amount * (entry - exit_price))"

definition pnl_law :: "side \<Rightarrow> number \<Rightarrow> number \<Rightarrow> number \<Rightarrow> number" where
  \<comment> \<open>the profit-and-loss law as the specification words it, in the service's numbers\<close>
  "pnl_law s amount entry exit_price =
     (case s of
        Buy \<Rightarrow> js_mul amount (js_sub exit_price entry)
      | Sell \<Rightarrow> js_mul amount (js_sub entry exit_price))"

section \<open>parseFloat\<close>

text \<open>
  \<open>parseFloat\<close> on a string of ASCII characters, as the language defines it: white
  space is skipped, the longest prefix that is a decimal literal (a sign, digits, a
  fraction, an exponent, or \<open>Infinity\<close>) is read, and its value is rounded to a double;
  without such a prefix the result is \<open>NaN\<close>. The service's functions take
  \<open>parseFloat\<close> as a parameter, and what is proved of them for every function holds for
  this one; it is the function of the samples.
\<close>

definition is_space :: "char \<Rightarrow> bool" where
  "is_space c = (c \<in> set [CHR 0x09, CHR 0x0A, CHR 0x0B, CHR 0x0C, CHR 0x0D, CHR '' ''])"

definition is_digit :: "char \<Rightarrow> bool" where
  "is_digit c = (c \<in> set ''0123456789'')"

definition digit_value :: "char \<Rightarrow> nat" where
  \<comment> \<open>the value of a decimal digit: the distance of its code from the code of \<open>0\<close>\<close>
  "digit_value c = of_char c - of_char CHR ''0''"

definition digits_value :: "string \<Rightarrow> nat" where
  "digits_value ds = foldl (\<lambda>n c. 10 * n + digit_value c) 0 ds"

definition exponent_part :: "string \<Rightarrow> int" where
  \<comment> \<open>the value of the exponent part that \<open>s\<close> starts with, 0 when it starts with none\<close>
  "exponent_part s =
     (case s of
        [] \<Rightarrow> 0
      | c # r \<Rightarrow>
          if c = CHR ''e'' \<or> c = CHR ''E''
          then (case r of
                  [] \<Rightarrow> 0
                | d # r' \<Rightarrow>
                    if d = CHR ''-'' then - int (digits_value (takeWhile is_digit r'))
                    else if d = CHR ''+'' then int (digits_value (takeWhile is_digit r'))
                    else int (digits_value (takeWhile is_digit r)))
          else 0)"

definition unsigned_literal :: "string \<Rightarrow> number" where
  "unsigned_literal s =
     (if take 8 s = ''Infinity'' then Infinity
      else
        let ip = takeWhile is_digit s;
            r1 = dropWhile is_digit s;
            fp = (case r1 of
                    [] \<Rightarrow> []
                  | c # r \<Rightarrow> if c = CHR ''.'' then takeWhile is_digit r else []);
            r2 = (case r1 of
                    [] \<Rightarrow> []
                  | c # r \<Rightarrow> if c = CHR ''.'' then dropWhile is_digit r else r1)
        in if ip = [] \<and> fp = [] then NaN
           else round_double
                  (of_nat (digits_value (ip @ fp))
                     * 10 powi (exponent_part r2 - int (length fp))))"

definition js_neg :: "number \<Rightarrow> number" where
  "js_neg v =
     (case v of
        NaN \<Rightarrow> NaN
      | Infinity \<Rightarrow> NegInfinity
      | NegInfinity \<Rightarrow> Infinity
      | Num r \<Rightarrow> Num (- r))"

definition sample_parseFloat :: "string \<Rightarrow> number" where
  "sample_parseFloat s =
     (case dropWhile is_space s of
        [] \<Rightarrow> NaN
      | c # r \<Rightarrow>
          if c = CHR ''-'' then js_neg (unsigned_literal r)
          else if c = CHR ''+'' then unsigned_literal r
          else unsigned_literal (c # r))"

section \<open>Sample data\<close>

text \<open>
  The trade of the flow test (a buy of 0.1 ETH at 2400, with no \<open>entryPrice\<close> of its
  own) and a stored sell at 100.
\<close>

definition eth_request :: TradeData where
  "eth_request =
     \<lparr>td_tradeId = ''test_trade_1'', td_userId = ''test_user'',
      td_safeAddress = ''0x742d35Cc'', td_networkKey = ''arbitrum'',
      td_tokenSymbol = Some ''ETH'', td_tokenMentioned = ''ETH'', td_signalMessage = Buy,
      td_entryPrice = NaN, td_currentPrice = Num 2400, td_tp1 = Num 2500,
      td_tp2 = Num 2600, td_sl = Num 2350, td_maxExitTime = Num 3600000,
      td_entryTxHash = Some ''0x1234'', td_entryAmount = Some ''0.1''\<rparr>"

definition sell_doc :: StoredTrade where
  "sell_doc =
     \<lparr>td_tradeId = ''trade_2'', td_userId = ''test_user'',
      td_safeAddress = ''0x742d35Cc'', td_networkKey = ''arbitrum'',
      td_tokenSymbol = Some ''SOL'', td_tokenMentioned = ''SOL'', td_signalMessage = Sell,
      td_entryPrice = Num 100, td_currentPrice = NaN, td_tp1 = Num 95,
      td_tp2 = Num 90, td_sl = Num 105, td_maxExitTime = Num 3600000,
      td_entryTxHash = Some ''0x5678'', td_entryAmount = Some ''1'',
      doc_id = ''id2'', doc_executedAt = Some (Num 0), doc_createdAt = Num 0,
      doc_status = Active\<rparr>"

definition negative_request :: TradeData where
  \<comment> \<open>the flow test's trade with a negative amount and a negative stop loss\<close>
  "negative_request = eth_request\<lparr>td_sl := Num (- 1), td_entryAmount := Some ''-0.1''\<rparr>"

definition all_resolve :: ExitEnv where
  "all_resolve =
     \<lparr>executeTrade_result = None, updateExited_result = None, updateFailed_result = None,
      time_exited = 2000, time_failed = 2000\<rparr>"

definition eth_service :: Service where
  \<comment> \<open>the flow test's trade added to a new service, stored under \<open>id1\<close> at time 0\<close>
  "eth_service = fst (addTradeToMonitoring eth_request (Inr ''id1'') 0 new_service)"

definition sell_service :: Service where
  \<comment> \<open>a new service whose database-sync loop has adopted the stored sell\<close>
  "sell_service = syncWithDatabase (Inr [sell_doc]) new_service"

definition running_service :: Service where
  \<comment> \<open>the service with the flow test's trade, started on a database holding the sell\<close>
  "running_service = start (Inr [sell_doc]) eth_service"

definition double_exit_schedule :: "event list" where
  \<comment> \<open>a price-check tick is waiting for the price when the operator exits the trade by
      hand; the price then arrives above \<open>tp1\<close>\<close>
  "double_exit_schedule =
     [MonitorAllTrades,
      ManualExitTrade ''test_trade_1'' ''operator'',
      PriceSettled 0 (Some (Num 2505)) 1000,
      ExecuteTradeSettled 1 None 2000,
      ExecuteTradeSettled 0 None 2100,
      UpdateSettled 1 None 2200,
      UpdateSettled 0 None 2300]"

definition overlapping_ticks_schedule :: "event list" where
  \<comment> \<open>a second price-check tick fires before the first has its price\<close>
  "overlapping_ticks_schedule =
     [MonitorAllTrades,
      MonitorAllTrades,
      PriceSettled 0 (Some (Num 2505)) 1000,
      PriceSettled 1 (Some (Num 2506)) 1100]"

definition observed_service :: Service where
  \<comment> \<open>the flow test's trade after one price check at 2450, which fires no exit\<close>
  "observed_service =
     monitorSingleTrade sample_parseFloat 0 (Some (Num 2450)) 1000 all_resolve eth_service"

definition feed :: "nat \<Rightarrow> real list \<Rightarrow> Service \<Rightarrow> Service" where
  \<comment> \<open>successive price checks of one position, each at time 1000 and with every
      collaborator resolving\<close>
  "feed r prices svc =
     foldl (\<lambda>s p. monitorSingleTrade sample_parseFloat r (Some (Num p)) 1000 all_resolve s)
       svc prices"

definition executor_fails :: ExitEnv where
  "executor_fails = all_resolve\<lparr>executeTrade_result := Some (Error ''swap reverted'')\<rparr>"

definition database_down :: ExitEnv where
  "database_down =
     all_resolve\<lparr>updateExited_result := Some (Error ''write failed''),
                 updateFailed_result := Some (Error ''write failed'')\<rparr>"

definition huge :: number where
  \<comment> \<open>the double \<open>1e155\<close>\<close>
  "huge = round_double (10 ^ 155)"

definition huge_request :: TradeData where
  \<comment> \<open>the flow test's trade with an amount and a price of \<open>1e155\<close>\<close>
  "huge_request = eth_request\<lparr>td_currentPrice := huge, td_entryAmount := Some ''1e155''\<rparr>"

definition huge_service :: Service where
  "huge_service = fst (addTradeToMonitoring huge_request (Inr ''id3'') 0 new_service)"

definition eth_doc :: StoredTrade where
  \<comment> \<open>the document that holds the flow test's trade while it is active\<close>
  "eth_doc =
     \<lparr>td_tradeId = ''test_trade_1'', td_userId = ''test_user'',
      td_safeAddress = ''0x742d35Cc'', td_networkKey = ''arbitrum'',
      td_tokenSymbol = Some ''ETH'', td_tokenMentioned = ''ETH'', td_signalMessage = Buy,
      td_entryPrice = NaN, td_currentPrice = Num 2400, td_tp1 = Num 2500,
      td_tp2 = Num 2600, td_sl = Num 2350, td_maxExitTime = Num 3600000,
      td_entryTxHash = Some ''0x1234'', td_entryAmount = Some ''0.1'',
      doc_id = ''id1'', doc_executedAt = Some (Num 0), doc_createdAt = Num 0,
      doc_status = Active\<rparr>"

definition readoption_schedule :: "event list" where
  \<comment> \<open>the exit of a trade is waiting for the executor, and the document is still active,
      when the database-sync loop runs; the next price-check tick finds the trade again\<close>
  "readoption_schedule =
     [MonitorAllTrades,
      PriceSettled 0 (Some (Num 2505)) 1000,
      SyncWithDatabase,
      ActiveTradesSettled 1 (Inr [eth_doc]),
      MonitorAllTrades,
      PriceSettled 2 (Some (Num 2506)) 1100]"

section \<open>Rounding to a double\<close>

lemma pow2_pos [simp]: "0 < pow2 e"
  by (simp add: pow2_def)

lemma pow2_nonneg [simp]: "0 \<le> pow2 e"
  by (simp add: pow2_def)

lemma pow2_neq_0 [simp]: "pow2 e \<noteq> 0"
  by (simp add: pow2_def)

lemma pow2_add: "pow2 (a + b) = pow2 a * pow2 b"
  unfolding pow2_def by (rule power_int_add) simp

lemma pow2_mono: "a \<le> b \<Longrightarrow> pow2 a \<le> pow2 b"
  unfolding pow2_def by (rule power_int_increasing) simp_all

lemma pow2_strict_mono: "a < b \<Longrightarrow> pow2 a < pow2 b"
  unfolding pow2_def by (rule power_int_strict_increasing) simp_all

lemma find_upto_Some:
  assumes "lo \<le> e" "e \<le> hi" "P e" "\<And>k. lo \<le> k \<Longrightarrow> k < e \<Longrightarrow> \<not> P k"
  shows "find P [lo..hi] = Some e"
proof -
  have nth: "[lo..hi] ! j = lo + int j" if "j < length [lo..hi]" for j
    using that by (simp add: nth_upto)
  let ?i = "nat (e - lo)"
  have len: "?i < length [lo..hi]" using assms(1,2) by simp
  have "[lo..hi] ! ?i = e" using nth [OF len] assms(1) by simp
  moreover have "\<not> P ([lo..hi] ! j)" if "j < ?i" for j
  proof -
    have "j < length [lo..hi]" using that len by linarith
    then have "[lo..hi] ! j = lo + int j" by (rule nth)
    with that show ?thesis using assms(4) [of "lo + int j"] by simp
  qed
  ultimately show ?thesis
    unfolding find_Some_iff using len assms(3) by (intro exI [of _ ?i]) auto
qed

lemma find_upto_None:
  assumes "\<And>k. lo \<le> k \<Longrightarrow> k \<le> hi \<Longrightarrow> \<not> P k"
  shows "find P [lo..hi] = None"
  unfolding find_None_iff using assms by auto

lemma find_upto_SomeD:
  assumes "find P [lo..hi] = Some e"
  shows "lo \<le> e \<and> e \<le> hi \<and> P e \<and> (\<forall>k. lo \<le> k \<and> k < e \<longrightarrow> \<not> P k)"
proof -
  from assms obtain i where i: "i < length [lo..hi]" "P ([lo..hi] ! i)" "e = [lo..hi] ! i"
    "\<forall>j<i. \<not> P ([lo..hi] ! j)"
    unfolding find_Some_iff by blast
  have nth: "[lo..hi] ! j = lo + int j" if "j < length [lo..hi]" for j
    using that by (simp add: nth_upto)
  have e: "e = lo + int i" using i(1,3) nth by simp
  have "\<not> P k" if "lo \<le> k" "k < e" for k
  proof -
    have "nat (k - lo) < i" using that e by simp
    moreover have "[lo..hi] ! nat (k - lo) = k"
      using that e i(1) nth [of "nat (k - lo)"] by simp
    ultimately show ?thesis using i(4) by metis
  qed
  moreover have "lo \<le> e" "e \<le> hi" using e i(1) by simp_all
  ultimately show ?thesis using i(2,3) by simp
qed

lemma binade_eq:
  assumes "- 1022 \<le> e" "e \<le> 1023" "e = - 1022 \<or> pow2 e \<le> \<bar>x\<bar>" "\<bar>x\<bar> < pow2 (e + 1)"
  shows "binade x = Some e"
  unfolding binade_def
proof (rule find_upto_Some)
  fix k :: int
  assume k: "- 1022 \<le> k" "k < e"
  then have "e \<noteq> - 1022" by simp
  moreover have "pow2 (k + 1) \<le> pow2 e" using k by (intro pow2_mono) simp
  ultimately show "\<not> \<bar>x\<bar> < pow2 (k + 1)" using assms(3) by linarith
qed (use assms in simp_all)

lemma binade_None:
  assumes "pow2 1024 \<le> \<bar>x\<bar>"
  shows "binade x = None"
  unfolding binade_def
proof (rule find_upto_None)
  fix k :: int
  assume "k \<le> 1023"
  then have "pow2 (k + 1) \<le> pow2 1024" by (intro pow2_mono) simp
  with assms show "\<not> \<bar>x\<bar> < pow2 (k + 1)" by linarith
qed

lemma binade_Some:
  assumes "binade x = Some e"
  shows "- 1022 \<le> e" "e \<le> 1023" "\<bar>x\<bar> < pow2 (e + 1)" "e = - 1022 \<or> pow2 e \<le> \<bar>x\<bar>"
proof -
  note d = find_upto_SomeD [OF assms [unfolded binade_def]]
  show "- 1022 \<le> e" "e \<le> 1023" "\<bar>x\<bar> < pow2 (e + 1)" using d by simp_all
  show "e = - 1022 \<or> pow2 e \<le> \<bar>x\<bar>"
  proof (cases "e = - 1022")
    case False
    then have "- 1022 \<le> e - 1" "e - 1 < e" using d by simp_all
    then have "\<not> \<bar>x\<bar> < pow2 (e - 1 + 1)" using d by blast
    then show ?thesis by simp
  qed simp
qed

lemma round_half_even_near: "\<bar>of_int (round_half_even z) - z\<bar> \<le> 1 / 2"
  unfolding round_half_even_def Let_def by (auto simp: abs_if) linarith+

lemma round_half_even_int [simp]: "round_half_even (of_int k) = k"
  by (simp add: round_half_even_def)

lemma round_half_even_magnitude:
  assumes "\<bar>z\<bar> \<le> of_int n"
  shows "\<bar>round_half_even z\<bar> \<le> n"
proof -
  have "\<bar>of_int (round_half_even z) :: real\<bar> \<le> of_int n + 1 / 2"
    using round_half_even_near [of z] assms by linarith
  then have "of_int \<bar>round_half_even z\<bar> < (of_int (n + 1) :: real)" by simp
  then have "\<bar>round_half_even z\<bar> < n + 1" by (simp only: of_int_less_iff)
  then show ?thesis by simp
qed

lemma pow2_53: "pow2 53 = of_int (2 ^ 53)"
  by (simp add: pow2_def)

lemma pow2_split: "pow2 (e + 1) = pow2 53 * pow2 (e - 52)"
proof -
  have "e + 1 = 53 + (e - 52)" by simp
  then show ?thesis by (simp only: pow2_add)
qed

lemma rounded_magnitude:
  assumes "\<bar>x\<bar> < pow2 (e + 1)"
  shows "\<bar>of_int (round_half_even (x / pow2 (e - 52))) * pow2 (e - 52)\<bar> \<le> pow2 (e + 1)"
proof -
  let ?q = "pow2 (e - 52)"
  have q: "0 < ?q" by simp
  have "\<bar>x\<bar> / ?q \<le> pow2 53"
    using assms q unfolding pow2_split by (simp add: field_simps)
  then have "\<bar>x / ?q\<bar> \<le> of_int (2 ^ 53)"
    using q unfolding pow2_53 by (simp add: abs_divide)
  then have "\<bar>round_half_even (x / ?q)\<bar> \<le> 2 ^ 53" by (rule round_half_even_magnitude)
  then have "real_of_int \<bar>round_half_even (x / ?q)\<bar> \<le> real_of_int (2 ^ 53)"
    by (simp only: of_int_le_iff)
  then have "\<bar>real_of_int (round_half_even (x / ?q))\<bar> \<le> pow2 53"
    unfolding pow2_53 by simp
  then have "\<bar>real_of_int (round_half_even (x / ?q))\<bar> * ?q \<le> pow2 53 * ?q"
    using q by (intro mult_right_mono) simp_all
  then show ?thesis using q unfolding pow2_split by (simp add: abs_mult)
qed

lemma round_double_binade:
  assumes "- 1022 \<le> e" "e \<le> 1023" "e = - 1022 \<or> pow2 e \<le> \<bar>x\<bar>" "\<bar>x\<bar> < pow2 (e + 1)"
  shows "round_double x =
           (if pow2 1024 \<le> \<bar>of_int (round_half_even (x / pow2 (e - 52))) * pow2 (e - 52)\<bar>
            then signed_infinity x
            else Num (of_int (round_half_even (x / pow2 (e - 52))) * pow2 (e - 52)))"
  by (simp add: round_double_def binade_eq [OF assms] Let_def)

text \<open>
  Below the top binade the rounded value is in range. With the binade of \<open>x\<close> given,
  this is how a product or a difference of given numbers is evaluated.
\<close>

lemma round_double_normal:
  assumes "- 1022 \<le> e" "e \<le> 1022" "e = - 1022 \<or> pow2 e \<le> \<bar>x\<bar>" "\<bar>x\<bar> < pow2 (e + 1)"
  shows "round_double x = Num (of_int (round_half_even (x / pow2 (e - 52))) * pow2 (e - 52))"
proof -
  have "pow2 (e + 1) < pow2 1024" using assms(2) by (intro pow2_strict_mono) simp
  with rounded_magnitude [OF assms(4)]
  have "\<not> pow2 1024 \<le> \<bar>of_int (round_half_even (x / pow2 (e - 52))) * pow2 (e - 52)\<bar>"
    by linarith
  moreover have "e \<le> 1023" using assms(2) by simp
  ultimately show ?thesis using round_double_binade [OF assms(1) _ assms(3,4)] by simp
qed

lemma round_double_overflow:
  "pow2 1024 \<le> \<bar>x\<bar> \<Longrightarrow> round_double x = signed_infinity x"
  by (simp add: round_double_def binade_None)

lemma round_double_zero [simp]: "round_double 0 = Num 0"
proof -
  have "round_half_even 0 = 0" using round_half_even_int [of 0] by simp
  then show ?thesis using round_double_normal [of "- 1022" 0] by simp
qed

text \<open>
  A finite rounded value is within half a unit in the last place of the exact one.
\<close>

lemma round_double_error:
  assumes "round_double x = Num y"
  shows "\<bar>y - x\<bar> \<le> pow2 (- 53) * \<bar>x\<bar> + pow2 (- 1075)"
proof (cases "binade x")
  case None
  with assms show ?thesis by (simp add: round_double_def signed_infinity_def split: if_splits)
next
  case (Some e)
  let ?q = "pow2 (e - 52)"
  have q: "0 < ?q" by simp
  from assms Some have y: "y = of_int (round_half_even (x / ?q)) * ?q"
    by (simp add: round_double_def Let_def signed_infinity_def split: if_splits)
  have "?q \<noteq> 0" by simp
  then have "y - x = (of_int (round_half_even (x / ?q)) - x / ?q) * ?q"
    by (simp add: y left_diff_distrib)
  then have "\<bar>y - x\<bar> = \<bar>of_int (round_half_even (x / ?q)) - x / ?q\<bar> * ?q"
    using q by (simp add: abs_mult)
  also have "\<dots> \<le> 1 / 2 * ?q"
    using round_half_even_near [of "x / ?q"] q by (intro mult_right_mono) simp_all
  also have "\<dots> = pow2 (e - 53)"
  proof -
    have "pow2 (e - 52) = pow2 (1 + (e - 53))" by simp
    also have "\<dots> = pow2 1 * pow2 (e - 53)" by (rule pow2_add)
    finally show ?thesis by (simp add: pow2_def)
  qed
  finally have near: "\<bar>y - x\<bar> \<le> pow2 (e - 53)" .
  from binade_Some(4) [OF Some] show ?thesis
  proof
    assume "e = - 1022"
    then have "pow2 (e - 53) = pow2 (- 1075)" by simp
    moreover have "0 \<le> pow2 (- 53) * \<bar>x\<bar>" by simp
    ultimately show ?thesis using near by linarith
  next
    assume le: "pow2 e \<le> \<bar>x\<bar>"
    have "pow2 (e - 53) = pow2 (- 53 + e)" by simp
    also have "\<dots> = pow2 (- 53) * pow2 e" by (rule pow2_add)
    also have "\<dots> \<le> pow2 (- 53) * \<bar>x\<bar>" using le by (intro mult_left_mono) simp_all
    finally have "pow2 (e - 53) \<le> pow2 (- 53) * \<bar>x\<bar>" .
    moreover have "0 \<le> pow2 (- 1075)" by simp
    ultimately show ?thesis using near by linarith
  qed
qed

lemma round_half_even_bounds:
  "\<lfloor>z\<rfloor> \<le> round_half_even z" "round_half_even z \<le> \<lfloor>z\<rfloor> + 1"
  by (simp_all add: round_half_even_def Let_def)

lemma round_half_even_mono:
  assumes "z \<le> w"
  shows "round_half_even z \<le> round_half_even w"
proof (cases "\<lfloor>z\<rfloor> = \<lfloor>w\<rfloor>")
  case True
  then show ?thesis using assms by (auto simp: round_half_even_def Let_def)
next
  case False
  moreover have "\<lfloor>z\<rfloor> \<le> \<lfloor>w\<rfloor>" using assms by (rule floor_mono)
  ultimately have "\<lfloor>z\<rfloor> + 1 \<le> \<lfloor>w\<rfloor>" by simp
  then show ?thesis
    using round_half_even_bounds(2) [of z] round_half_even_bounds(1) [of w] by linarith
qed

lemma round_half_even_minus: "round_half_even (- z) = - round_half_even z"
proof (cases "z \<in> \<int>")
  case True
  then obtain k where "z = of_int k" by (auto elim: Ints_cases)
  then have "- z = of_int (- k)" by simp
  then show ?thesis unfolding \<open>z = of_int k\<close> by (simp only: round_half_even_int)
next
  case False
  then have "z \<noteq> of_int \<lfloor>z\<rfloor>" by (metis Ints_of_int)
  then have f: "\<lfloor>- z\<rfloor> = - \<lfloor>z\<rfloor> - 1"
    by (simp add: floor_minus ceiling_altdef)
  have "even (- \<lfloor>z\<rfloor> - 1) \<longleftrightarrow> odd \<lfloor>z\<rfloor>" by simp
  then show ?thesis
    unfolding round_half_even_def Let_def f by (auto simp: algebra_simps)
qed

lemma binade_minus: "binade (- x) = binade x"
  by (simp add: binade_def)

lemma find_upto_NoneD: "find P [lo..hi] = None \<Longrightarrow> lo \<le> k \<Longrightarrow> k \<le> hi \<Longrightarrow> \<not> P k"
  by (auto simp: find_None_iff)

lemma binade_NoneD: "binade x = None \<Longrightarrow> pow2 1024 \<le> \<bar>x\<bar>"
proof -
  assume "binade x = None"
  then have "\<not> \<bar>x\<bar> < pow2 (1023 + 1)"
    unfolding binade_def by (rule find_upto_NoneD) simp_all
  then show ?thesis by simp
qed

lemma round_double_minus: "round_double (- x) = js_neg (round_double x)"
proof (cases "binade x")
  case None
  from binade_NoneD [OF this] have "x \<noteq> 0" using pow2_pos [of 1024] by linarith
  then show ?thesis
    using None by (auto simp: round_double_def binade_minus signed_infinity_def js_neg_def)
next
  case (Some e)
  let ?y = "of_int (round_half_even (x / pow2 (e - 52))) * pow2 (e - 52)"
  have "pow2 1024 \<le> \<bar>?y\<bar> \<Longrightarrow> x \<noteq> 0"
  proof
    assume "pow2 1024 \<le> \<bar>?y\<bar>" "x = 0"
    then have "pow2 1024 \<le> 0" using round_half_even_int [of 0] by simp
    then show False using pow2_pos [of 1024] by linarith
  qed
  then show ?thesis
    using Some
    by (auto simp: round_double_def binade_minus Let_def round_half_even_minus
          signed_infinity_def js_neg_def)
qed

lemma pow2_52: "pow2 52 = of_int (2 ^ 52)"
  by (simp add: pow2_def)

lemma rounded_range:
  assumes "binade x = Some e" "0 \<le> x"
  shows "(if e = - 1022 then 0 else pow2 e)
           \<le> of_int (round_half_even (x / pow2 (e - 52))) * pow2 (e - 52)"
    and "of_int (round_half_even (x / pow2 (e - 52))) * pow2 (e - 52) \<le> pow2 (e + 1)"
proof -
  let ?q = "pow2 (e - 52)"
  let ?y = "of_int (round_half_even (x / ?q)) * ?q"
  have q: "0 < ?q" by simp
  show "?y \<le> pow2 (e + 1)"
    using rounded_magnitude [OF binade_Some(3) [OF assms(1)]] by linarith
  show "(if e = - 1022 then 0 else pow2 e) \<le> ?y"
  proof (cases "e = - 1022")
    case True
    have "0 \<le> x / ?q" using assms(2) q by simp
    then have "round_half_even (of_int 0) \<le> round_half_even (x / ?q)"
      by (intro round_half_even_mono) simp
    then have "0 \<le> round_half_even (x / ?q)" by (simp only: round_half_even_int)
    then have "0 \<le> ?y" using q by simp
    with True show ?thesis by simp
  next
    case False
    then have le: "pow2 e \<le> x" using binade_Some(4) [OF assms(1)] assms(2) by simp
    have split: "pow2 e = pow2 52 * ?q"
    proof -
      have "e = 52 + (e - 52)" by simp
      then show ?thesis using pow2_add [of 52 "e - 52"] by simp
    qed
    have "of_int (2 ^ 52) \<le> x / ?q"
      using le q unfolding split pow2_52 by (simp add: field_simps)
    then have "round_half_even (of_int (2 ^ 52)) \<le> round_half_even (x / ?q)"
      by (rule round_half_even_mono)
    then have "2 ^ 52 \<le> round_half_even (x / ?q)" by (simp only: round_half_even_int)
    then have "real_of_int (2 ^ 52) \<le> real_of_int (round_half_even (x / ?q))"
      by (simp only: of_int_le_iff)
    then have "pow2 52 * ?q \<le> ?y"
      unfolding pow2_52 using q by (intro mult_right_mono) simp_all
    with False show ?thesis by (simp add: split)
  qed
qed

lemma round_double_not_NaN: "round_double x \<noteq> NaN"
  by (auto simp: round_double_def signed_infinity_def Let_def split: option.splits)

lemma js_le_Infinity: "js_le a Infinity \<longleftrightarrow> a \<noteq> NaN"
  by (cases a) simp_all

lemma js_le_NegInfinity: "js_le NegInfinity a \<longleftrightarrow> a \<noteq> NaN"
  by (cases a) simp_all

lemma round_double_mono_nonneg:
  assumes "0 \<le> x" "x \<le> x'"
  shows "js_le (round_double x) (round_double x')"
proof (cases "binade x'")
  case None
  from binade_NoneD [OF this] assms have "0 < x'" using pow2_pos [of 1024] by linarith
  then have "round_double x' = Infinity"
    using None by (simp add: round_double_def signed_infinity_def)
  then show ?thesis by (simp add: js_le_Infinity round_double_not_NaN)
next
  case (Some e')
  have x': "\<bar>x'\<bar> < pow2 (e' + 1)" by (rule binade_Some(3) [OF Some])
  show ?thesis
  proof (cases "binade x")
    case None
    from binade_NoneD [OF this] assms have "pow2 1024 \<le> \<bar>x'\<bar>" by linarith
    then have "binade x' = None" by (rule binade_None)
    with Some show ?thesis by simp
  next
    case e: (Some e)
    let ?y = "of_int (round_half_even (x / pow2 (e - 52))) * pow2 (e - 52)"
    let ?y' = "of_int (round_half_even (x' / pow2 (e' - 52))) * pow2 (e' - 52)"
    have nonneg': "0 \<le> x'" using assms by simp
    have "e \<le> e'"
    proof (rule ccontr)
      assume "\<not> e \<le> e'"
      then have less: "e' + 1 \<le> e" by simp
      then have "e \<noteq> - 1022" using binade_Some(1) [OF Some] by simp
      then have "pow2 e \<le> \<bar>x\<bar>" using binade_Some(4) [OF e] by simp
      moreover have "pow2 (e' + 1) \<le> pow2 e" using less by (rule pow2_mono)
      ultimately show False using x' assms by linarith
    qed
    have y: "0 \<le> ?y"
    proof (cases "e = - 1022")
      case True
      then show ?thesis using rounded_range(1) [OF e assms(1)] by simp
    next
      case False
      then have "pow2 e \<le> ?y" using rounded_range(1) [OF e assms(1)] by simp
      then show ?thesis using pow2_nonneg [of e] by linarith
    qed
    have yy': "?y \<le> ?y'"
    proof (cases "e = e'")
      case True
      have "x / pow2 (e - 52) \<le> x' / pow2 (e - 52)"
        using assms(2) by (simp add: divide_right_mono)
      then have "round_half_even (x / pow2 (e - 52)) \<le> round_half_even (x' / pow2 (e - 52))"
        by (rule round_half_even_mono)
      then have "real_of_int (round_half_even (x / pow2 (e - 52)))
                   \<le> real_of_int (round_half_even (x' / pow2 (e - 52)))"
        by (simp only: of_int_le_iff)
      then show ?thesis unfolding True [symmetric] by (intro mult_right_mono) simp_all
    next
      case False
      with \<open>e \<le> e'\<close> have less: "e + 1 \<le> e'" by simp
      then have "e' \<noteq> - 1022" using binade_Some(1) [OF e] by simp
      then have "pow2 e' \<le> ?y'" using rounded_range(1) [OF Some nonneg'] by simp
      moreover have "pow2 (e + 1) \<le> pow2 e'" using less by (rule pow2_mono)
      ultimately show ?thesis using rounded_range(2) [OF e assms(1)] by linarith
    qed
    have pos: "0 < x" if "pow2 1024 \<le> \<bar>?y\<bar>"
    proof (rule ccontr)
      assume "\<not> 0 < x"
      with assms(1) have "x = 0" by simp
      with that have "pow2 1024 \<le> 0" using round_half_even_int [of 0] by simp
      then show False using pow2_pos [of 1024] by linarith
    qed
    have pos': "0 < x'" if "pow2 1024 \<le> \<bar>?y'\<bar>"
    proof (rule ccontr)
      assume "\<not> 0 < x'"
      with nonneg' have "x' = 0" by simp
      with that have "pow2 1024 \<le> 0" using round_half_even_int [of 0] by simp
      then show False using pow2_pos [of 1024] by linarith
    qed
    have rd: "round_double x = (if pow2 1024 \<le> \<bar>?y\<bar> then signed_infinity x else Num ?y)"
      using e by (simp add: round_double_def Let_def)
    have rd': "round_double x' = (if pow2 1024 \<le> \<bar>?y'\<bar> then signed_infinity x' else Num ?y')"
      using Some by (simp add: round_double_def Let_def)
    show ?thesis
    proof (cases "pow2 1024 \<le> \<bar>?y'\<bar>")
      case True
      then show ?thesis
        using pos' rd' by (simp add: signed_infinity_def js_le_Infinity round_double_not_NaN)
    next
      case False
      then have "\<not> pow2 1024 \<le> \<bar>?y\<bar>" using y yy' by linarith
      with False show ?thesis using rd rd' yy' by simp
    qed
  qed
qed

lemma js_le_neg: "js_le a b \<Longrightarrow> js_le (js_neg b) (js_neg a)"
  by (cases a; cases b) (simp_all add: js_neg_def)

lemma js_le_trans: "js_le a b \<Longrightarrow> js_le b c \<Longrightarrow> js_le a c"
  by (cases a; cases b; cases c) simp_all

lemma js_neg_neg: "js_neg (js_neg a) = a"
  by (cases a) (simp_all add: js_neg_def)

text \<open>Rounding is monotone.\<close>

lemma round_double_mono:
  assumes "x \<le> x'"
  shows "js_le (round_double x) (round_double x')"
proof -
  consider "0 \<le> x" | "x' \<le> 0" | "x < 0" "0 < x'" by linarith
  then show ?thesis
  proof cases
    case 1
    then show ?thesis using assms by (rule round_double_mono_nonneg)
  next
    case 2
    then have "js_le (round_double (- x')) (round_double (- x))"
      using assms by (intro round_double_mono_nonneg) simp_all
    then have "js_le (js_neg (round_double x')) (js_neg (round_double x))"
      by (simp only: round_double_minus)
    from js_le_neg [OF this] show ?thesis by (simp add: js_neg_neg)
  next
    case 3
    have "js_le (round_double 0) (round_double (- x))"
      using 3 by (intro round_double_mono_nonneg) simp_all
    then have "js_le (js_neg (round_double (- x))) (js_neg (Num 0))"
      unfolding round_double_zero by (rule js_le_neg)
    then have "js_le (round_double x) (Num 0)"
      by (simp add: round_double_minus js_neg_neg) (simp add: js_neg_def)
    moreover have "js_le (round_double 0) (round_double x')"
      using 3 by (intro round_double_mono_nonneg) simp_all
    ultimately show ?thesis unfolding round_double_zero by (rule js_le_trans)
  qed
qed

section \<open>Unfolding and evaluation\<close>

lemmas exit_defs = executeTradeExit_def exit_begin_def exit_write_exited_def exit_catch_def
  exit_write_failed_def exit_emit_exited_def exit_emit_failed_def call_def emit_def

lemmas value_defs = num_or_def str_or_def js_ge_def js_gt_def new_Date_def opposite_def message_def
  fired_def exitTradeData_def exitData_of_def calc_profitLoss_def manual_condition_def
  map_delete_def map_has_def map_values_def find_trade_def

lemmas build_defs = set_new_def monitoredTrade_from_db_def monitoredTrade_from_request_def
  loadActiveTradesFromDatabase_def syncWithDatabase_def addTradeToMonitoring_def
  setInterval_def clearInterval_def start_def stop_def new_service_def

lemmas step_defs = step_def spawn_def resume_def on_price_def on_executed_def on_updated_def
  finish_def observe_def updateTrailingStopData_def checkExitConditions_def

lemmas round_double_at =
  round_double_normal [of "- 4"] round_double_normal [of "- 1"] round_double_normal [of 0]
  round_double_normal [of 2] round_double_normal [of 3] round_double_normal [of 4]
  round_double_normal [of 6] round_double_normal [of 7] round_double_normal [of 8]
  round_double_normal [of 11] round_double_normal [of 514]

lemmas double_eval = round_double_at round_half_even_def pow2_def

lemma digit_values:
  "digit_value CHR ''0'' = 0" "digit_value CHR ''1'' = 1" "digit_value CHR ''2'' = 2"
  "digit_value CHR ''3'' = 3" "digit_value CHR ''4'' = 4" "digit_value CHR ''5'' = 5"
  "digit_value CHR ''6'' = 6" "digit_value CHR ''7'' = 7" "digit_value CHR ''8'' = 8"
  "digit_value CHR ''9'' = 9"
  by (simp_all add: digit_value_def)

lemmas parse_defs = sample_parseFloat_def unsigned_literal_def exponent_part_def
  digits_value_def digit_values is_digit_def is_space_def js_neg_def Let_def

lemma double_literals:
  "round_double (99 / 100) = Num (4458563631096791 / 4503599627370496)"
  "round_double (101 / 100) = Num (4548635623644201 / 4503599627370496)"
  by (simp_all add: double_eval)

lemma parseFloat_samples:
  "sample_parseFloat ''0.1'' = Num (3602879701896397 / 36028797018963968)"
  "sample_parseFloat ''-0.1'' = Num (- (3602879701896397 / 36028797018963968))"
  "sample_parseFloat ''0'' = Num 0"
  "sample_parseFloat ''1'' = Num 1"
  "sample_parseFloat ''1e155'' = huge"
  by (simp_all add: parse_defs huge_def double_eval)

lemma huge_value:
  "huge =
     Num 100000000000000000717623154091016830408061481189160311806712772146250661680488340128266606984576189330386573813296762136260081534229469225952733653677113344"
  by (simp add: huge_def double_eval)

lemma huge_product: "js_mul huge huge = Infinity"
proof -
  have "(2::real) ^ 1024 \<le> 10 ^ 155 * 10 ^ 155" by simp
  then have "pow2 1024
      \<le> \<bar>100000000000000000717623154091016830408061481189160311806712772146250661680488340128266606984576189330386573813296762136260081534229469225952733653677113344
         * 100000000000000000717623154091016830408061481189160311806712772146250661680488340128266606984576189330386573813296762136260081534229469225952733653677113344\<bar>"
    by (simp add: pow2_def)
  then show ?thesis
    unfolding huge_value js_mul.simps by (simp add: round_double_overflow signed_infinity_def)
qed

lemma recorded_exits_append:
  "recorded_exits (xs @ ys) = recorded_exits xs @ recorded_exits ys"
  by (simp add: recorded_exits_def)

lemma recorded_exits_simps:
  "recorded_exits [] = []"
  "recorded_exits (ExecuteTrade d a # es) = recorded_exits es"
  "recorded_exits (StoreExecutedTrade td # es) = recorded_exits es"
  "recorded_exits (Emit ev # es) = recorded_exits es"
  "recorded_exits (UpdateTradeStatus i Exited (ExitInfo x) # es) = (i, x) # recorded_exits es"
  "recorded_exits (UpdateTradeStatus i Failed y # es) = recorded_exits es"
  "recorded_exits (UpdateTradeStatus i st (FailInfo m t) # es) = recorded_exits es"
  by (simp_all add: recorded_exits_def split: extra.splits)

lemma eth_service_value:
  "eth_service =
     \<lparr>heap =
        [\<lparr>mongo_id = ''id1'', tradeId = ''test_trade_1'', userId = ''test_user'',
          safeAddress = ''0x742d35Cc'', networkKey = ''arbitrum'', tokenSymbol = ''ETH'',
          tokenMentioned = ''ETH'', signalMessage = Buy, entryPrice = Num 2400,
          currentPrice = None, tp1 = Num 2500, tp2 = Num 2600, sl = Num 2350,
          maxExitTime = Num 3600000, entryTxHash = ''0x1234'', entryAmount = ''0.1'',
          executedAt = Num 0, status = Active, lastPriceCheck = None, priceCheckCount = 0,
          highestPriceSinceEntry = Num 2400, trailingStopPrice = Num 2376,
          trailingStopEnabled = True\<rparr>],
      monitoredTrades = [(''id1'', 0)], monitoringInterval = None, dbSyncInterval = None,
      isRunning = False, liveTimers = [], nextTimer = 0,
      effects = [StoreExecutedTrade eth_request, Emit (TradeAdded 0)]\<rparr>"
  by (simp add: eth_service_def build_defs value_defs call_def emit_def eth_request_def
        double_eval)

lemma sell_service_value:
  "sell_service =
     \<lparr>heap =
        [\<lparr>mongo_id = ''id2'', tradeId = ''trade_2'', userId = ''test_user'',
          safeAddress = ''0x742d35Cc'', networkKey = ''arbitrum'', tokenSymbol = ''SOL'',
          tokenMentioned = ''SOL'', signalMessage = Sell, entryPrice = Num 100,
          currentPrice = None, tp1 = Num 95, tp2 = Num 90, sl = Num 105,
          maxExitTime = Num 3600000, entryTxHash = ''0x5678'', entryAmount = ''1'',
          executedAt = Num 0, status = Active, lastPriceCheck = None, priceCheckCount = 0,
          highestPriceSinceEntry = Num 100, trailingStopPrice = Num 99,
          trailingStopEnabled = True\<rparr>],
      monitoredTrades = [(''id2'', 0)], monitoringInterval = None, dbSyncInterval = None,
      isRunning = False, liveTimers = [], nextTimer = 0,
      effects = [Emit (TradeAdded 0)]\<rparr>"
  by (simp add: sell_service_def build_defs value_defs call_def emit_def sell_doc_def
        double_eval)

lemma observed_service_value:
  "observed_service =
     eth_service\<lparr>heap :=
       [(heap eth_service ! 0)\<lparr>currentPrice := Some (Num 2450), lastPriceCheck := Some 1000,
          priceCheckCount := 1, highestPriceSinceEntry := Num 2450,
          trailingStopPrice := Num (4851 / 2)\<rparr>]\<rparr>"
  by (simp add: observed_service_def monitorSingleTrade_def eth_service_value step_defs
        value_defs Let_def double_eval)

lemma huge_service_value:
  "huge_service =
     \<lparr>heap =
        [\<lparr>mongo_id = ''id3'', tradeId = ''test_trade_1'', userId = ''test_user'',
          safeAddress = ''0x742d35Cc'', networkKey = ''arbitrum'', tokenSymbol = ''ETH'',
          tokenMentioned = ''ETH'', signalMessage = Buy,
          entryPrice = huge,
          currentPrice = None, tp1 = Num 2500, tp2 = Num 2600, sl = Num 2350,
          maxExitTime = Num 3600000, entryTxHash = ''0x1234'', entryAmount = ''1e155'',
          executedAt = Num 0, status = Active, lastPriceCheck = None, priceCheckCount = 0,
          highestPriceSinceEntry = huge,
          trailingStopPrice =
            Num 98999999999999996066121915595009577147533571686812855257122223559390706199428641610502243299264912884320179866385913837359550660031801421111150214683557888,
          trailingStopEnabled = True\<rparr>],
      monitoredTrades = [(''id3'', 0)], monitoringInterval = None, dbSyncInterval = None,
      isRunning = False, liveTimers = [], nextTimer = 0,
      effects = [StoreExecutedTrade huge_request, Emit (TradeAdded 0)]\<rparr>"
  by (simp add: huge_service_def build_defs value_defs call_def emit_def huge_request_def
        eth_request_def huge_value double_eval)

section \<open>Exit priority\<close>

text \<open>
  \<^bold>\<open>C2.\<close> For every monitored position, price and time, the exit kind that
  \<open>checkExitConditions\<close> chooses is the kind of the first row of the priority table
  whose predicate holds: the deadline, then the trailing stop (when enabled), the stop
  loss, \<open>tp2\<close> and \<open>tp1\<close>; no exit fires when no row holds. The condition carries the
  price it was evaluated at.
\<close>

theorem exit_kind_by_priority:
  "exit_kind (checkExitConditions trade price now) = first_true (priority_table trade price now)
   \<and> cond_currentPrice (checkExitConditions trade price now) = price"
  by (cases "signalMessage trade")
     (simp_all add: checkExitConditions_def priority_table_def first_true_def exit_kind_def
        fired_def toward_loss_def toward_profit_def)

section \<open>Profit and loss\<close>

lemma calc_profitLoss_by_values:
  "calc_profitLoss pf trade cond
     = pnl_by_values (signalMessage trade) (pf (entryAmount trade)) (entryPrice trade)
         (cond_currentPrice cond)"
  by (cases "signalMessage trade") (simp_all add: calc_profitLoss_def pnl_by_values_def)

lemma executeTradeExit_recorded:
  "executeTrade_result env = None \<Longrightarrow>
     recorded_exits (effects (fst (executeTradeExit pf r cond env svc)))
       = recorded_exits (effects svc)
           @ [(mongo_id (heap svc ! r), exitData_of pf (heap svc ! r) cond (time_exited env))]"
  by (simp add: exit_defs Let_def recorded_exits_append recorded_exits_simps
           split: option.splits)

lemma js_sub_finite:
  assumes "js_sub u v = Num p"
  obtains a b where "u = Num a" "v = Num b" "round_double (a - b) = Num p"
  using assms by (cases u; cases v) simp_all

lemma js_mul_finite:
  assumes "js_mul (Num a) (Num b) = Num p"
  shows "\<bar>p - a * b\<bar> \<le> pow2 (- 53) * \<bar>a * b\<bar> + pow2 (- 1075)"
  using assms round_double_error [of "a * b" p] by simp

lemma pow2_small: "pow2 (- 53) \<le> 1 / 2" "4 * pow2 (- 1075) = pow2 (- 1073)"
  by (simp_all add: pow2_def power_int_minus field_simps)

lemma difference_of_products_error:
  assumes u: "\<bar>u - ax\<bar> \<le> pow2 (- 53) * \<bar>ax\<bar> + pow2 (- 1075)"
    and v: "\<bar>v - ae\<bar> \<le> pow2 (- 53) * \<bar>ae\<bar> + pow2 (- 1075)"
    and p: "\<bar>p - (u - v)\<bar> \<le> pow2 (- 53) * \<bar>u - v\<bar> + pow2 (- 1075)"
  shows "\<bar>p - (ax - ae)\<bar> \<le> 3 * pow2 (- 53) * (\<bar>ax\<bar> + \<bar>ae\<bar>) + pow2 (- 1073)"
proof -
  define eps where "eps = pow2 (- 53)"
  define eta where "eta = pow2 (- 1075)"
  have eps: "0 \<le> eps" "eps \<le> 1 / 2" and eta: "0 \<le> eta"
    using pow2_small(1) by (simp_all add: eps_def eta_def)
  define s where "s = \<bar>ax\<bar> + \<bar>ae\<bar>"
  have s: "0 \<le> s" by (simp add: s_def)
  have uv: "\<bar>u - v\<bar> \<le> (1 + eps) * s + 2 * eta"
    using u v unfolding eps_def [symmetric] eta_def [symmetric] s_def
    by (simp add: algebra_simps)
  have "eps * \<bar>u - v\<bar> \<le> eps * ((1 + eps) * s + 2 * eta)"
    using uv eps(1) by (rule mult_left_mono)
  also have "\<dots> = eps * s + eps * eps * s + 2 * eps * eta" by (simp add: algebra_simps)
  also have "\<dots> \<le> eps * s + 1 / 2 * eps * s + 2 * (1 / 2) * eta"
  proof -
    have "eps * eps * s \<le> 1 / 2 * eps * s"
      using eps s by (intro mult_right_mono) simp_all
    moreover have "2 * eps * eta \<le> 2 * (1 / 2) * eta"
      using eps eta by (intro mult_right_mono mult_left_mono) simp_all
    ultimately show ?thesis by linarith
  qed
  finally have 1: "eps * \<bar>u - v\<bar> \<le> 3 / 2 * eps * s + eta" by simp
  have 2: "\<bar>(u - v) - (ax - ae)\<bar> \<le> eps * s + 2 * eta"
    using u v unfolding eps_def [symmetric] eta_def [symmetric] s_def
    by (simp add: algebra_simps)
  have "\<bar>p - (ax - ae)\<bar> \<le> \<bar>p - (u - v)\<bar> + \<bar>(u - v) - (ax - ae)\<bar>" by linarith
  also have "\<dots> \<le> (eps * \<bar>u - v\<bar> + eta) + (eps * s + 2 * eta)"
    using p 2 unfolding eps_def [symmetric] eta_def [symmetric] by linarith
  also have "\<dots> \<le> 3 * eps * s + 4 * eta"
  proof -
    have "0 \<le> eps * s" using eps s by simp
    with 1 show ?thesis by linarith
  qed
  finally show ?thesis
    unfolding eps_def eta_def s_def pow2_small(2) .
qed

lemma pnl_by_values_error:
  assumes "pnl_by_values s (Num a) (Num e) (Num x) = Num p"
  shows "\<bar>p - pnl_exact s a e x\<bar> \<le> 3 * pow2 (- 53) * (\<bar>a * x\<bar> + \<bar>a * e\<bar>) + pow2 (- 1073)"
proof (cases s)
  case Buy
  with assms have "js_sub (js_mul (Num a) (Num x)) (js_mul (Num a) (Num e)) = Num p"
    by (simp add: pnl_by_values_def)
  then obtain u v where uv: "js_mul (Num a) (Num x) = Num u" "js_mul (Num a) (Num e) = Num v"
    "round_double (u - v) = Num p"
    by (rule js_sub_finite)
  have "\<bar>p - (a * x - a * e)\<bar> \<le> 3 * pow2 (- 53) * (\<bar>a * x\<bar> + \<bar>a * e\<bar>) + pow2 (- 1073)"
    using js_mul_finite [OF uv(1)] js_mul_finite [OF uv(2)] round_double_error [OF uv(3)]
    by (rule difference_of_products_error)
  then show ?thesis using Buy by (simp add: pnl_exact_def algebra_simps)
next
  case Sell
  with assms have "js_sub (js_mul (Num a) (Num e)) (js_mul (Num a) (Num x)) = Num p"
    by (simp add: pnl_by_values_def)
  then obtain u v where uv: "js_mul (Num a) (Num e) = Num u" "js_mul (Num a) (Num x) = Num v"
    "round_double (u - v) = Num p"
    by (rule js_sub_finite)
  have "\<bar>p - (a * e - a * x)\<bar> \<le> 3 * pow2 (- 53) * (\<bar>a * e\<bar> + \<bar>a * x\<bar>) + pow2 (- 1073)"
    using js_mul_finite [OF uv(1)] js_mul_finite [OF uv(2)] round_double_error [OF uv(3)]
    by (rule difference_of_products_error)
  then show ?thesis using Sell by (simp add: pnl_exact_def algebra_simps)
qed

lemma round_double_cases:
  obtains y where "round_double x = Num y" | "round_double x = Infinity"
  | "round_double x = NegInfinity"
  by (cases "round_double x")
     (auto simp: round_double_def signed_infinity_def Let_def split: option.splits if_splits)

lemma pnl_by_values_round_trip:
  "pnl_by_values s (Num a) (Num p) (Num p)
     = (case js_mul (Num a) (Num p) of Num v \<Rightarrow> Num 0 | _ \<Rightarrow> NaN)"
  by (cases s; rule round_double_cases [of "a * p"]) (simp_all add: pnl_by_values_def)

text \<open>
  \<^bold>\<open>C3.\<close> When the executor has carried out the reversing trade, the exit routine
  writes one exit record. Its \<open>exitPrice\<close> is the price of the exit condition, and its
  \<open>profitLoss\<close> is the difference, rounded to a double, of the exit value and the entry
  value, each the product of the parsed amount and the price rounded to a double (exit
  value minus entry value for a buy, the reverse for a sell). When amount and prices are
  finite and the recorded \<open>profitLoss\<close> is finite, it is off the amount times the
  difference of the prices by at most three rounding errors of the two values. When the
  exit price is the entry price, it is 0 if the value is a finite double, and \<open>NaN\<close> if
  the value overflows.
\<close>

theorem profit_and_loss_recorded:
  "executeTrade_result env = None \<Longrightarrow>
     recorded_exits (effects (fst (executeTradeExit pf r cond env svc)))
       = recorded_exits (effects svc)
           @ [(mongo_id (heap svc ! r),
               \<lparr>exitType = etype cond,
                exitPrice = cond_currentPrice cond,
                exitAmount = entryAmount (heap svc ! r),
                profitLoss =
                  pnl_by_values (signalMessage (heap svc ! r))
                    (pf (entryAmount (heap svc ! r))) (entryPrice (heap svc ! r))
                    (cond_currentPrice cond),
                exitedAt = time_exited env\<rparr>)]
     \<and> (\<forall>a e x p.
           pf (entryAmount (heap svc ! r)) = Num a \<and> entryPrice (heap svc ! r) = Num e
           \<and> cond_currentPrice cond = Num x
           \<and> pnl_by_values (signalMessage (heap svc ! r)) (Num a) (Num e) (Num x) = Num p
         \<longrightarrow> \<bar>p - pnl_exact (signalMessage (heap svc ! r)) a e x\<bar>
               \<le> 3 * pow2 (- 53) * (\<bar>a * x\<bar> + \<bar>a * e\<bar>) + pow2 (- 1073))
     \<and> (\<forall>a p.
           pf (entryAmount (heap svc ! r)) = Num a \<and> entryPrice (heap svc ! r) = Num p
           \<and> cond_currentPrice cond = Num p
         \<longrightarrow> pnl_by_values (signalMessage (heap svc ! r)) (Num a) (Num p) (Num p)
               = (case js_mul (Num a) (Num p) of Num v \<Rightarrow> Num 0 | _ \<Rightarrow> NaN))"
  by (simp add: executeTradeExit_recorded exitData_of_def calc_profitLoss_by_values
        pnl_by_values_error pnl_by_values_round_trip)

theorem profit_and_loss_recorded_witness:
  "executeTrade_result all_resolve = None
   \<and> recorded_exits (effects (fst (executeTradeExit sample_parseFloat 0
        (manual_condition (heap observed_service ! 0)) all_resolve observed_service)))
       = [(''id1'', \<lparr>exitType = TP1, exitPrice = Num 2450, exitAmount = ''0.1'',
                     profitLoss = Num 5, exitedAt = 2000\<rparr>)]
   \<and> \<bar>5 - pnl_exact Buy (3602879701896397 / 36028797018963968) 2400 2450\<bar>
       \<le> 3 * pow2 (- 53)
             * (\<bar>3602879701896397 / 36028797018963968 * 2450\<bar>
                + \<bar>3602879701896397 / 36028797018963968 * 2400\<bar>)
           + pow2 (- 1073)
   \<and> recorded_exits (effects (fst (executeTradeExit sample_parseFloat 0
        (manual_condition (heap eth_service ! 0)) all_resolve eth_service)))
       = [(''id1'', \<lparr>exitType = TP1, exitPrice = Num 2400, exitAmount = ''0.1'',
                     profitLoss = Num 0, exitedAt = 2000\<rparr>)]
   \<and> js_mul (sample_parseFloat ''0.1'') (Num 2400) = Num 240"
proof -
  have env: "executeTrade_result all_resolve = None" by (simp add: all_resolve_def)
  have vals:
    "pnl_by_values Buy (Num (3602879701896397 / 36028797018963968)) (Num 2400) (Num 2450)
       = Num 5"
    "js_mul (Num (3602879701896397 / 36028797018963968)) (Num 2400) = Num 240"
    by (simp_all add: pnl_by_values_def double_eval)
  note observed = profit_and_loss_recorded [of all_resolve sample_parseFloat 0
    "manual_condition (heap observed_service ! 0)" observed_service, OF env]
  note round_trip = profit_and_loss_recorded [of all_resolve sample_parseFloat 0
    "manual_condition (heap eth_service ! 0)" eth_service, OF env]
  have "recorded_exits (effects (fst (executeTradeExit sample_parseFloat 0
        (manual_condition (heap observed_service ! 0)) all_resolve observed_service)))
       = [(''id1'', \<lparr>exitType = TP1, exitPrice = Num 2450, exitAmount = ''0.1'',
                     profitLoss = Num 5, exitedAt = 2000\<rparr>)]"
    using observed [THEN conjunct1]
    by (simp add: vals observed_service_value eth_service_value manual_condition_def
          num_or_def parseFloat_samples all_resolve_def recorded_exits_simps)
  moreover have "\<bar>5 - pnl_exact Buy (3602879701896397 / 36028797018963968) 2400 2450\<bar>
       \<le> 3 * pow2 (- 53)
             * (\<bar>3602879701896397 / 36028797018963968 * 2450\<bar>
                + \<bar>3602879701896397 / 36028797018963968 * 2400\<bar>)
           + pow2 (- 1073)"
    using observed [THEN conjunct2, THEN conjunct1, rule_format,
      of "3602879701896397 / 36028797018963968" 2400 2450 5] vals(1)
    by (simp add: observed_service_value eth_service_value manual_condition_def
          num_or_def parseFloat_samples)
  moreover have "recorded_exits (effects (fst (executeTradeExit sample_parseFloat 0
        (manual_condition (heap eth_service ! 0)) all_resolve eth_service)))
       = [(''id1'', \<lparr>exitType = TP1, exitPrice = Num 2400, exitAmount = ''0.1'',
                     profitLoss = Num 0, exitedAt = 2000\<rparr>)]"
    using round_trip [THEN conjunct1]
      round_trip [THEN conjunct2, THEN conjunct2, rule_format,
        of "3602879701896397 / 36028797018963968" 2400]
    by (simp add: eth_service_value manual_condition_def parseFloat_samples
          all_resolve_def recorded_exits_simps double_eval)
  ultimately show ?thesis by (simp add: env parseFloat_samples double_eval)
qed

text \<open>
  The claim as worded fails on the specification's own trailing-stop scenario: the
  position of 0.1 bought at 2400 and closed at 2469 is recorded with a profit that is
  neither the amount times the difference of the prices computed in doubles nor 6.9.
  And a position of \<open>1e155\<close> entered at \<open>1e155\<close>, closed at its entry price, is recorded
  with \<open>NaN\<close>, not 0.
\<close>

theorem profit_and_loss_law_fails_in_doubles:
  "recorded_exits (effects (feed 0 [2400, 2480, 2495, 2479, 2469] eth_service))
     = [(''id1'', \<lparr>exitType = TRAILING_STOP, exitPrice = Num 2469, exitAmount = ''0.1'',
                   profitLoss = Num (242772167412941 / 35184372088832), exitedAt = 2000\<rparr>)]
   \<and> pnl_law Buy (sample_parseFloat ''0.1'') (Num 2400) (Num 2469)
       = Num (3884354678607053 / 562949953421312)
   \<and> Num (242772167412941 / 35184372088832) \<noteq> Num (3884354678607053 / 562949953421312)
   \<and> pnl_exact Buy (1 / 10) 2400 2469 = 69 / 10
   \<and> Num (242772167412941 / 35184372088832) \<noteq> Num (69 / 10)
   \<and> entryPrice (heap huge_service ! 0) = huge
   \<and> sample_parseFloat (entryAmount (heap huge_service ! 0)) = huge
   \<and> recorded_exits (effects (fst (manualExitTrade sample_parseFloat ''test_trade_1''
        ''operator'' all_resolve huge_service)))
       = [(''id3'', \<lparr>exitType = TP1, exitPrice = huge,
                     exitAmount = ''1e155'', profitLoss = NaN, exitedAt = 2000\<rparr>)]"
proof -
  have "recorded_exits (effects (feed 0 [2400, 2480, 2495, 2479, 2469] eth_service))
     = [(''id1'', \<lparr>exitType = TRAILING_STOP, exitPrice = Num 2469, exitAmount = ''0.1'',
                   profitLoss = Num (242772167412941 / 35184372088832), exitedAt = 2000\<rparr>)]"
    by (simp add: feed_def monitorSingleTrade_def eth_service_value step_defs exit_defs
          value_defs parseFloat_samples all_resolve_def recorded_exits_simps Let_def
          double_eval)
  moreover have "pnl_law Buy (sample_parseFloat ''0.1'') (Num 2400) (Num 2469)
       = Num (3884354678607053 / 562949953421312)"
    by (simp add: pnl_law_def parseFloat_samples double_eval)
  moreover have "pnl_exact Buy (1 / 10) 2400 2469 = 69 / 10"
    by (simp add: pnl_exact_def)
  moreover have "recorded_exits (effects (fst (manualExitTrade sample_parseFloat
        ''test_trade_1'' ''operator'' all_resolve huge_service)))
       = [(''id3'', \<lparr>exitType = TP1, exitPrice = huge,
                     exitAmount = ''1e155'', profitLoss = NaN, exitedAt = 2000\<rparr>)]"
    by (simp add: manualExitTrade_def huge_service_value exit_defs value_defs
          parseFloat_samples all_resolve_def recorded_exits_simps Let_def huge_product)
  ultimately show ?thesis by (simp add: huge_service_value parseFloat_samples)
qed

section \<open>The scenarios of the specification\<close>

text \<open>
  The flow test's trade is the buy of the specification's scenarios (0.1 at 2400, with
  \<open>tp1 = 2500\<close>, \<open>tp2 = 2600\<close> and \<open>sl = 2350\<close>), and the stored sell is the one of its
  sell-side scenario. Fed the prices of a scenario, the model writes an exit record of
  the kind the scenario expects, at the price it expects. The profit it records is
  computed in doubles: it is the scenario's for the take-profit scenarios, and a little
  off 6.9 for the trailing-stop scenario.
\<close>

lemma scenario_tp1_hit_on_buy:
  "recorded_exits (effects (feed 0 [2410, 2450, 2505] eth_service))
     = [(''id1'', \<lparr>exitType = TP1, exitPrice = Num 2505, exitAmount = ''0.1'',
                   profitLoss = Num (21 / 2), exitedAt = 2000\<rparr>)]"
  by (simp add: feed_def monitorSingleTrade_def eth_service_value step_defs exit_defs
        value_defs parseFloat_samples all_resolve_def recorded_exits_simps Let_def
        double_eval)

lemma scenario_tp2_preferred_over_tp1:
  "recorded_exits (effects (feed 0 [2410, 2620] eth_service))
     = [(''id1'', \<lparr>exitType = TP2, exitPrice = Num 2620, exitAmount = ''0.1'',
                   profitLoss = Num 22, exitedAt = 2000\<rparr>)]"
  by (simp add: feed_def monitorSingleTrade_def eth_service_value step_defs exit_defs
        value_defs parseFloat_samples all_resolve_def recorded_exits_simps Let_def
        double_eval)

lemma scenario_trailing_stop_overrides_sl:
  "trailingStopPrice (heap (feed 0 [2400, 2480, 2495, 2479] eth_service) ! 0)
     = Num (2715848696188109 / 1099511627776)
   \<and> recorded_exits (effects (feed 0 [2400, 2480, 2495, 2479] eth_service)) = []
   \<and> exitType (snd (hd (recorded_exits
        (effects (feed 0 [2400, 2480, 2495, 2479, 2469] eth_service))))) = TRAILING_STOP"
  by (simp add: feed_def monitorSingleTrade_def eth_service_value step_defs exit_defs
        value_defs parseFloat_samples all_resolve_def recorded_exits_simps Let_def
        double_eval)

lemma scenario_sell_side_tp:
  "recorded_exits (effects (feed 0 [97, 89] sell_service))
     = [(''id2'', \<lparr>exitType = TP2, exitPrice = Num 89, exitAmount = ''1'',
                   profitLoss = Num 11, exitedAt = 2000\<rparr>)]"
  by (simp add: feed_def monitorSingleTrade_def sell_service_value step_defs exit_defs
        value_defs parseFloat_samples all_resolve_def recorded_exits_simps Let_def
        double_eval)

section \<open>The manual exit\<close>

lemma executeTradeExit_outcome:
  "snd (executeTradeExit pf r cond env svc) = None \<longleftrightarrow>
     (executeTrade_result env = None \<and> updateExited_result env = None)
     \<or> updateFailed_result env = None"
  by (auto simp: exit_defs Let_def split: option.splits)

lemma manualExitTrade_found:
  "find_trade tid svc = Some r \<Longrightarrow>
     manualExitTrade pf tid reason env svc
       = (fst (executeTradeExit pf r (manual_condition (heap svc ! r)) env svc),
          snd (executeTradeExit pf r (manual_condition (heap svc ! r)) env svc) = None)"
  by (cases "executeTradeExit pf r (manual_condition (heap svc ! r)) env svc")
     (simp add: manualExitTrade_def split: option.splits)

lemma failed_writes_append: "failed_writes (xs @ ys) = failed_writes xs @ failed_writes ys"
  by (simp add: failed_writes_def)

lemma failed_writes_simps:
  "failed_writes [] = []"
  "failed_writes (ExecuteTrade d a # es) = failed_writes es"
  "failed_writes (StoreExecutedTrade td # es) = failed_writes es"
  "failed_writes (Emit ev # es) = failed_writes es"
  "failed_writes (UpdateTradeStatus i Failed (FailInfo m t) # es) = (i, m) # failed_writes es"
  "failed_writes (UpdateTradeStatus i Exited y # es) = failed_writes es"
  "failed_writes (UpdateTradeStatus i st (ExitInfo x) # es) = failed_writes es"
  by (simp_all add: failed_writes_def split: extra.splits)

lemma executeTradeExit_failed_write:
  "executeTrade_result env = Some e
     \<or> (executeTrade_result env = None \<and> updateExited_result env = Some e) \<Longrightarrow>
   failed_writes (effects (fst (executeTradeExit pf r cond env svc)))
     = failed_writes (effects svc) @ [(mongo_id (heap svc ! r), message e)]"
  by (auto simp: exit_defs Let_def failed_writes_append failed_writes_simps
           split: option.splits)

lemma manual_condition_price:
  "cond_currentPrice (manual_condition trade)
     = (case currentPrice trade of
          None \<Rightarrow> entryPrice trade
        | Some p \<Rightarrow> if truthy p then p else entryPrice trade)"
  by (simp add: manual_condition_def num_or_def split: option.splits)

lemma executor_calls_append:
  "executor_calls (xs @ ys) = executor_calls xs @ executor_calls ys"
  by (simp add: executor_calls_def)

lemma executor_calls_simps:
  "executor_calls [] = []"
  "executor_calls (ExecuteTrade d a # es) = (d, a) # executor_calls es"
  "executor_calls (StoreExecutedTrade td # es) = executor_calls es"
  "executor_calls (Emit ev # es) = executor_calls es"
  "executor_calls (UpdateTradeStatus i st y # es) = executor_calls es"
  by (simp_all add: executor_calls_def)

lemma executeTradeExit_dispatch:
  "executor_calls (effects (fst (executeTradeExit pf r cond env svc)))
     = executor_calls (effects svc)
         @ [(exitTradeData (heap svc ! r) cond, entryAmount (heap svc ! r))]
   \<and> monitoredTrades (fst (executeTradeExit pf r cond env svc))
       = map_delete (mongo_id (heap svc ! r)) (monitoredTrades svc)
   \<and> heap (fst (executeTradeExit pf r cond env svc)) = heap svc"
  by (simp add: exit_defs Let_def executor_calls_append executor_calls_simps
           split: option.splits)

text \<open>
  \<^bold>\<open>C10.\<close> \<open>manualExitTrade\<close> returns false when no monitored position has the
  \<open>tradeId\<close>, and then changes nothing. When one is found it returns true, also when
  the executor or the write of status exited fails: the exit routine then writes status
  failed with the error's message. It returns false on a found trade only when that
  write of status failed is rejected as well. Whatever it returns on a found trade, the
  exit has been dispatched: the executor has been called once more, with the reversing
  trade built from the position and the manual exit condition, and the position has left
  the registry.
\<close>

theorem manualExitTrade_returns:
  "snd (manualExitTrade pf tid reason env svc)
     = (case find_trade tid svc of
          None \<Rightarrow> False
        | Some r \<Rightarrow> (executeTrade_result env = None \<and> updateExited_result env = None)
                     \<or> updateFailed_result env = None)
   \<and> (find_trade tid svc = None \<longrightarrow> fst (manualExitTrade pf tid reason env svc) = svc)
   \<and> (\<forall>r e. find_trade tid svc = Some r
          \<and> (executeTrade_result env = Some e
               \<or> (executeTrade_result env = None \<and> updateExited_result env = Some e))
        \<longrightarrow> failed_writes (effects (fst (manualExitTrade pf tid reason env svc)))
              = failed_writes (effects svc) @ [(mongo_id (heap svc ! r), message e)])
   \<and> (\<forall>r. find_trade tid svc = Some r
        \<longrightarrow> executor_calls (effects (fst (manualExitTrade pf tid reason env svc)))
              = executor_calls (effects svc)
                  @ [(exitTradeData (heap svc ! r) (manual_condition (heap svc ! r)),
                      entryAmount (heap svc ! r))]
            \<and> monitoredTrades (fst (manualExitTrade pf tid reason env svc))
                = map_delete (mongo_id (heap svc ! r)) (monitoredTrades svc)
            \<and> heap (fst (manualExitTrade pf tid reason env svc)) = heap svc)"
proof (cases "find_trade tid svc")
  case None
  then show ?thesis by (simp add: manualExitTrade_def)
next
  case (Some r)
  then show ?thesis
    using executeTradeExit_failed_write [of env _ pf r "manual_condition (heap svc ! r)" svc]
    by (simp add: manualExitTrade_found executeTradeExit_outcome executeTradeExit_dispatch)
qed

theorem manualExitTrade_returns_witness:
  "find_trade ''unknown'' observed_service = None
   \<and> manualExitTrade sample_parseFloat ''unknown'' ''operator'' all_resolve observed_service
       = (observed_service, False)
   \<and> find_trade ''test_trade_1'' observed_service = Some 0
   \<and> snd (manualExitTrade sample_parseFloat ''test_trade_1'' ''operator'' all_resolve
            observed_service)
   \<and> executeTrade_result executor_fails = Some (Error ''swap reverted'')
   \<and> snd (manualExitTrade sample_parseFloat ''test_trade_1'' ''operator'' executor_fails
            observed_service)
   \<and> failed_writes (effects (fst (manualExitTrade sample_parseFloat ''test_trade_1''
        ''operator'' executor_fails observed_service))) = [(''id1'', ''swap reverted'')]
   \<and> \<not> snd (manualExitTrade sample_parseFloat ''test_trade_1'' ''operator'' database_down
              observed_service)
   \<and> executor_calls (effects (fst (manualExitTrade sample_parseFloat ''test_trade_1''
        ''operator'' database_down observed_service)))
       = [(\<lparr>x_tradeId = ''test_trade_1'', x_userId = ''test_user'',
            x_safeAddress = ''0x742d35Cc'', x_networkKey = ''arbitrum'',
            x_tokenMentioned = ''ETH'', x_signalMessage = Sell, x_currentPrice = Num 2450,
            x_entryPrice = Num 2400, x_entryAmount = ''0.1''\<rparr>, ''0.1'')]
   \<and> monitoredTrades (fst (manualExitTrade sample_parseFloat ''test_trade_1''
        ''operator'' database_down observed_service)) = []"
  using
    manualExitTrade_returns [of sample_parseFloat "''unknown''" "''operator''" all_resolve
      observed_service]
    manualExitTrade_returns [of sample_parseFloat "''test_trade_1''" "''operator''"
      all_resolve observed_service]
    manualExitTrade_returns [of sample_parseFloat "''test_trade_1''" "''operator''"
      executor_fails observed_service]
    manualExitTrade_returns [of sample_parseFloat "''test_trade_1''" "''operator''"
      database_down observed_service]
  by (simp add: observed_service_value eth_service_value find_trade_def map_values_def
        all_resolve_def executor_fails_def database_down_def message_def failed_writes_simps
        executor_calls_simps exitTradeData_def manual_condition_def num_or_def opposite_def
        map_delete_def prod_eq_iff)

text \<open>
  \<^bold>\<open>C5.\<close> As the code has it: for the first monitored position whose \<open>tradeId\<close>
  matches, \<open>manualExitTrade\<close> runs the exit routine with an exit condition of type
  \<open>TP1\<close> (the type has no kind for a manual exit), triggered, whose price is the last
  price recorded on the position when there is one and it is truthy, and the entry price
  otherwise. When the executor resolves, the exit record is written with type \<open>TP1\<close>.
\<close>

theorem manual_exit_is_recorded_as_TP1:
  "find_trade tid svc = Some r \<Longrightarrow>
     r \<in> set (map_values (monitoredTrades svc)) \<and> tradeId (heap svc ! r) = tid
     \<and> manualExitTrade pf tid reason env svc
       = (fst (executeTradeExit pf r (manual_condition (heap svc ! r)) env svc),
          snd (executeTradeExit pf r (manual_condition (heap svc ! r)) env svc) = None)
     \<and> etype (manual_condition (heap svc ! r)) = TP1
     \<and> triggered (manual_condition (heap svc ! r))
     \<and> cond_currentPrice (manual_condition (heap svc ! r))
         = (case currentPrice (heap svc ! r) of
              None \<Rightarrow> entryPrice (heap svc ! r)
            | Some p \<Rightarrow> if truthy p then p else entryPrice (heap svc ! r))
     \<and> (executeTrade_result env = None \<longrightarrow>
          map (\<lambda>e. exitType (snd e))
              (recorded_exits (effects (fst (manualExitTrade pf tid reason env svc))))
            = map (\<lambda>e. exitType (snd e)) (recorded_exits (effects svc)) @ [TP1])"
proof -
  assume found: "find_trade tid svc = Some r"
  have kind: "etype (manual_condition (heap svc ! r)) = TP1"
    and trig: "triggered (manual_condition (heap svc ! r))"
    by (simp_all add: manual_condition_def)
  have rec: "map (\<lambda>e. exitType (snd e))
              (recorded_exits (effects (fst (manualExitTrade pf tid reason env svc))))
            = map (\<lambda>e. exitType (snd e)) (recorded_exits (effects svc)) @ [TP1]"
    if "executeTrade_result env = None"
    using that kind
    by (simp add: manualExitTrade_found [OF found] executeTradeExit_recorded exitData_of_def)
  have first: "r \<in> set (map_values (monitoredTrades svc)) \<and> tradeId (heap svc ! r) = tid"
    using found by (auto simp: find_trade_def find_Some_iff)
  show ?thesis
    using manualExitTrade_found [OF found] kind trig rec manual_condition_price first by simp
qed

theorem manual_exit_is_recorded_as_TP1_witness:
  "find_trade ''test_trade_1'' observed_service = Some 0
   \<and> tradeId (heap observed_service ! 0) = ''test_trade_1''
   \<and> executeTrade_result all_resolve = None
   \<and> currentPrice (heap observed_service ! 0) = Some (Num 2450)
   \<and> cond_currentPrice (manual_condition (heap observed_service ! 0)) = Num 2450
   \<and> etype (manual_condition (heap observed_service ! 0)) = TP1
   \<and> snd (manualExitTrade sample_parseFloat ''test_trade_1'' ''operator'' all_resolve
            observed_service)
   \<and> map (\<lambda>e. exitType (snd e))
        (recorded_exits (effects (fst (manualExitTrade sample_parseFloat ''test_trade_1''
           ''operator'' all_resolve observed_service)))) = [TP1]"
proof -
  have found: "find_trade ''test_trade_1'' observed_service = Some 0"
    by (simp add: observed_service_value eth_service_value find_trade_def map_values_def)
  have before: "recorded_exits (effects observed_service) = []"
    by (simp add: observed_service_value eth_service_value recorded_exits_simps)
  have seen: "currentPrice (heap observed_service ! 0) = Some (Num 2450)"
    by (simp add: observed_service_value eth_service_value)
  have resolves: "executeTrade_result all_resolve = None"
    "updateExited_result all_resolve = None"
    by (simp_all add: all_resolve_def)
  show ?thesis
    using found before seen resolves
      manual_exit_is_recorded_as_TP1 [OF found, of sample_parseFloat "''operator''" all_resolve]
    by (auto simp: executeTradeExit_outcome)
qed

text \<open>
  No kind of its own is recorded for a manual exit. The operator exits the flow test's
  trade at 2450, below \<open>tp1 = 2500\<close>, where the per-position check fires nothing; the
  exit record has the type that the check gives an exit at 2505, above \<open>tp1\<close>.
\<close>

theorem manual_exit_indistinguishable_from_TP1:
  "recorded_exits (effects (fst (manualExitTrade sample_parseFloat ''test_trade_1''
      ''operator'' all_resolve observed_service)))
     = [(''id1'', \<lparr>exitType = TP1, exitPrice = Num 2450, exitAmount = ''0.1'',
                   profitLoss = Num 5, exitedAt = 2000\<rparr>)]
   \<and> exit_kind (checkExitConditions (heap observed_service ! 0) (Num 2450) 1000) = None
   \<and> exit_kind (checkExitConditions (heap observed_service ! 0) (Num 2505) 1000) = Some TP1"
  by (simp add: manualExitTrade_def observed_service_value eth_service_value exit_defs
        value_defs parseFloat_samples all_resolve_def checkExitConditions_def exit_kind_def
        recorded_exits_simps Let_def double_eval)

section \<open>A price of zero\<close>

lemma falsy_price_changes_nothing:
  "falsy_price fetched \<Longrightarrow> monitorSingleTrade pf r fetched now env svc = svc"
  by (auto simp: falsy_price_def monitorSingleTrade_def split: option.splits)

text \<open>
  \<^bold>\<open>C9.\<close> When \<open>getCurrentPrice\<close> resolves with \<open>null\<close> or with 0, the monitoring
  step returns at once: the service, and with it the position (its price, check count,
  extremum and trailing stop), is as before, and no exit begins, whatever the time and
  the position's levels are. The same holds of the step inside an interleaved run.
\<close>

theorem zero_price_is_a_failed_fetch:
  "fetched = None \<or> fetched = Some (Num 0) \<Longrightarrow>
     monitorSingleTrade pf r fetched now env svc = svc
     \<and> on_price r fetched now svc = (svc, Returned None)"
  by (auto simp: monitorSingleTrade_def on_price_def)

theorem zero_price_is_a_failed_fetch_witness:
  "(Some (Num 0) = None \<or> Some (Num 0) = Some (Num 0))
   \<and> monitorSingleTrade sample_parseFloat 0 (Some (Num 0)) 4000000 all_resolve eth_service
       = eth_service
   \<and> on_price 0 (Some (Num 0)) 4000000 eth_service = (eth_service, Returned None)
   \<and> exit_kind (checkExitConditions (heap eth_service ! 0) (Num 0) 4000000)
       = Some MAX_EXIT_TIME"
  using zero_price_is_a_failed_fetch [of "Some (Num 0)" sample_parseFloat 0 4000000 all_resolve
          eth_service]
  by (simp add: eth_service_value checkExitConditions_def exit_kind_def value_defs)

section \<open>Rehydration and the trailing stop\<close>

lemma from_db_initial_levels:
  "highestPriceSinceEntry (monitoredTrade_from_db d) = entryPrice (monitoredTrade_from_db d)
   \<and> trailingStopPrice (monitoredTrade_from_db d)
       = js_mul (entryPrice (monitoredTrade_from_db d)) (round_double (99 / 100))"
  by (simp add: monitoredTrade_from_db_def)

lemma buy_is_armed_from_db:
  "td_signalMessage d = Buy \<Longrightarrow> armed (monitoredTrade_from_db d)"
  by (simp add: armed_def monitoredTrade_from_db_def)

text \<open>
  \<^bold>\<open>C4.\<close> The extremum starts at the entry price, and the trailing stop at 0.99 times
  the entry price, for either side (\<open>from_db_initial_levels\<close>). For a sell the specification
  asks for 1.01 times the entry price. The stored sell at 100, adopted by the
  database-sync loop or loaded at start, has its stop at 99 and not at 101 (which is 100
  times 1.01 also when the factor and the product are rounded to doubles), and a first
  price equal to the entry price fires the trailing stop.
\<close>

theorem sell_rehydrated_with_stop_below_entry:
  "signalMessage (heap sell_service ! 0) = Sell
   \<and> entryPrice (heap sell_service ! 0) = Num 100
   \<and> highestPriceSinceEntry (heap sell_service ! 0) = Num 100
   \<and> trailingStopPrice (heap sell_service ! 0) = Num 99
   \<and> js_mul (entryPrice (heap sell_service ! 0)) (Num (1 + 1 / 100)) = Num 101
   \<and> trailingStopPrice (heap sell_service ! 0)
       \<noteq> js_mul (entryPrice (heap sell_service ! 0)) (Num (1 + 1 / 100))
   \<and> js_mul (entryPrice (heap sell_service ! 0)) (round_double (101 / 100)) = Num 101
   \<and> heap (loadActiveTradesFromDatabase (Inr [sell_doc]) new_service) = heap sell_service
   \<and> exit_kind (checkExitConditions (heap sell_service ! 0) (Num 100) 1000)
       = Some TRAILING_STOP"
  by (simp add: sell_service_value build_defs value_defs sell_doc_def checkExitConditions_def
        exit_kind_def double_eval)

lemma favorable_le_refl: "favorable_le s a a"
  by (simp add: favorable_le_def)

lemma js_lt_trans: "js_lt a b \<Longrightarrow> js_lt b c \<Longrightarrow> js_lt a c"
  by (cases a; cases b; cases c) simp_all

lemma favorable_le_trans:
  "favorable_le s a b \<Longrightarrow> favorable_le s b c \<Longrightarrow> favorable_le s a c"
  by (cases s) (auto simp: favorable_le_def intro: js_lt_trans)

lemma updateTrailingStopData_side [simp]:
  "signalMessage (updateTrailingStopData trade p) = signalMessage trade"
  by (simp add: updateTrailingStopData_def split: side.splits)

lemma highest_moves_favorably:
  "favorable_le (signalMessage trade) (highestPriceSinceEntry trade)
     (highestPriceSinceEntry (updateTrailingStopData trade p))"
  by (simp add: updateTrailingStopData_def favorable_le_def js_gt_def split: side.splits)

lemma highest_monotone_over_updates:
  "favorable_le (signalMessage trade) (highestPriceSinceEntry trade)
     (highestPriceSinceEntry (foldl updateTrailingStopData trade ps))"
proof (induction ps arbitrary: trade)
  case Nil
  show ?case by (simp add: favorable_le_refl)
next
  case (Cons p ps)
  have "favorable_le (signalMessage trade)
          (highestPriceSinceEntry (updateTrailingStopData trade p))
          (highestPriceSinceEntry
             (foldl updateTrailingStopData (updateTrailingStopData trade p) ps))"
    using Cons.IH [of "updateTrailingStopData trade p"] by simp
  with highest_moves_favorably [of trade p] show ?case
    by (auto intro: favorable_le_trans)
qed

lemma js_mul_mono:
  assumes "js_le a b" "0 < c"
  shows "js_le (js_mul a (Num c)) (js_mul b (Num c))"
proof (cases a)
  case (Num x)
  show ?thesis
  proof (cases b)
    case b: (Num y)
    have "x * c \<le> y * c" using assms Num b by simp
    then show ?thesis using Num b by (simp add: round_double_mono)
  qed (use assms Num in \<open>simp_all add: signed_infinity_def js_le_Infinity round_double_not_NaN\<close>)
qed (use assms in \<open>cases b; simp add: signed_infinity_def js_le_Infinity js_le_NegInfinity
       round_double_not_NaN\<close>)+

lemma js_le_cases: "js_le a b \<Longrightarrow> a = b \<or> js_lt a b"
  by (cases a; cases b) auto

lemma js_lt_le: "js_lt a b \<Longrightarrow> js_le a b"
  by (cases a; cases b) auto

lemma js_mul_tightens:
  "js_lt a b \<Longrightarrow> 0 < c \<Longrightarrow>
     js_mul a (Num c) = js_mul b (Num c) \<or> js_lt (js_mul a (Num c)) (js_mul b (Num c))"
  by (intro js_le_cases js_mul_mono js_lt_le)

text \<open>
  A trailing stop that stands one percent off the extremum stays so, and moves with the
  extremum, the favourable way or not at all: rounding is monotone.
\<close>

lemma trailing_tightens_when_armed:
  "armed trade \<Longrightarrow>
     armed (updateTrailingStopData trade p)
     \<and> favorable_le (signalMessage trade) (trailingStopPrice trade)
         (trailingStopPrice (updateTrailingStopData trade p))"
  using js_mul_tightens [of "highestPriceSinceEntry trade" p "4458563631096791 / 4503599627370496"]
    js_mul_tightens [of p "highestPriceSinceEntry trade" "4548635623644201 / 4503599627370496"]
  by (auto simp: armed_def updateTrailingStopData_def favorable_le_def js_gt_def
        double_literals split: side.splits)

text \<open>
  \<^bold>\<open>C8.\<close> The extremum only moves the favourable way, for either side and over any
  sequence of prices (\<open>highest_monotone_over_updates\<close>), and so does the trailing stop
  of a position whose stop stands one percent off its extremum on the losing side
  (\<open>trailing_tightens_when_armed\<close>), as it does for every buy. A sell starts with its
  stop one percent below the entry price: the stored sell at 100 has its stop at 99, and
  a first price of 99.5, which fires no exit, moves the extremum down to 99.5 and the
  stop up to the product of 99.5 and 1.01 in doubles, a little above 100.495.
\<close>

theorem sell_trailing_stop_loosens:
  "signalMessage (heap sell_service ! 0) = Sell
   \<and> highestPriceSinceEntry (heap sell_service ! 0) = Num 100
   \<and> trailingStopPrice (heap sell_service ! 0) = Num 99
   \<and> monitoredTrades (monitorSingleTrade sample_parseFloat 0 (Some (Num (199 / 2))) 1000
        all_resolve sell_service) = [(''id2'', 0)]
   \<and> highestPriceSinceEntry (heap (monitorSingleTrade sample_parseFloat 0
        (Some (Num (199 / 2))) 1000 all_resolve sell_service) ! 0) = Num (199 / 2)
   \<and> trailingStopPrice (heap (monitorSingleTrade sample_parseFloat 0
        (Some (Num (199 / 2))) 1000 all_resolve sell_service) ! 0)
       = Num (883963368266793 / 8796093022208)
   \<and> js_lt (Num 99) (Num (883963368266793 / 8796093022208))
   \<and> \<not> favorable_le Sell (trailingStopPrice (heap sell_service ! 0))
         (trailingStopPrice (heap (monitorSingleTrade sample_parseFloat 0
            (Some (Num (199 / 2))) 1000 all_resolve sell_service) ! 0))"
  by (simp add: sell_service_value monitorSingleTrade_def step_defs value_defs Let_def
        favorable_le_def double_eval)

section \<open>Registration\<close>

lemma map_of_map_set: "map_of (map_set k v m) k = Some v"
  by (induction m) auto

text \<open>
  \<^bold>\<open>C6.\<close> As the code has it: \<open>addTradeToMonitoring\<close> checks nothing of the request.
  It hands every request to the database; when the database resolves with an id, the
  call resolves, the registry holds under that id a new trade object built from the
  request, and \<open>tradeAdded\<close> is emitted; when the database rejects, the call rejects
  with the same error and neither the registry nor the trade objects change.
\<close>

theorem addTradeToMonitoring_validates_nothing:
  "snd (addTradeToMonitoring td (Inr i) now svc) = None
   \<and> map_of (monitoredTrades (fst (addTradeToMonitoring td (Inr i) now svc))) i
       = Some (length (heap svc))
   \<and> heap (fst (addTradeToMonitoring td (Inr i) now svc))
       = heap svc @ [monitoredTrade_from_request i td now]
   \<and> effects (fst (addTradeToMonitoring td (Inr i) now svc))
       = effects svc @ [StoreExecutedTrade td, Emit (TradeAdded (length (heap svc)))]
   \<and> addTradeToMonitoring td (Inl e) now svc
       = (svc\<lparr>effects := effects svc @ [StoreExecutedTrade td]\<rparr>, Some e)"
  by (simp add: addTradeToMonitoring_def call_def emit_def set_new_def Let_def map_of_map_set)

text \<open>
  A request with the amount \<open>-0.1\<close> and a stop loss of \<open>-1\<close> is stored and
  monitored, and the call resolves.
\<close>

theorem negative_request_is_registered:
  "td_entryAmount negative_request = Some ''-0.1''
   \<and> sample_parseFloat ''-0.1'' = Num (- (3602879701896397 / 36028797018963968))
   \<and> td_sl negative_request = Num (- 1)
   \<and> snd (addTradeToMonitoring negative_request (Inr ''id9'') 0 new_service) = None
   \<and> monitoredTrades (fst (addTradeToMonitoring negative_request (Inr ''id9'') 0 new_service))
       = [(''id9'', 0)]
   \<and> entryAmount (heap (fst (addTradeToMonitoring negative_request (Inr ''id9'') 0
        new_service)) ! 0) = ''-0.1''
   \<and> sl (heap (fst (addTradeToMonitoring negative_request (Inr ''id9'') 0
        new_service)) ! 0) = Num (- 1)
   \<and> effects (fst (addTradeToMonitoring negative_request (Inr ''id9'') 0 new_service))
       = [StoreExecutedTrade negative_request, Emit (TradeAdded 0)]"
  by (simp add: build_defs value_defs call_def emit_def parseFloat_samples eth_request_def
        negative_request_def double_eval)

section \<open>Stopping\<close>

lemma running_service_value:
  "running_service =
     eth_service\<lparr>heap := heap eth_service @ [heap sell_service ! 0],
                 monitoredTrades := [(''id1'', 0), (''id2'', 1)],
                 monitoringInterval := Some 0, dbSyncInterval := Some 1, isRunning := True,
                 liveTimers := [0, 1], nextTimer := 2\<rparr>"
  by (simp add: running_service_def eth_service_value sell_service_value build_defs value_defs
        sell_doc_def Let_def double_eval)

text \<open>
  \<^bold>\<open>C7.\<close> As the code has it: when the service is running, after \<open>stop\<close> the registry
  holds no position, both timer fields are cleared and the timers they held are
  cancelled, and \<open>isRunning\<close> is false. When the service is not running, \<open>stop\<close>
  returns at once and changes nothing.
\<close>

theorem stop_when_running:
  "(isRunning svc \<longrightarrow>
      monitoredTrades (stop svc) = [] \<and> monitoringInterval (stop svc) = None
      \<and> dbSyncInterval (stop svc) = None \<and> \<not> isRunning (stop svc)
      \<and> (\<forall>h. monitoringInterval svc = Some h \<or> dbSyncInterval svc = Some h
             \<longrightarrow> h \<notin> set (liveTimers (stop svc))))
   \<and> (\<not> isRunning svc \<longrightarrow> stop svc = svc)"
  by (auto simp: stop_def clearInterval_def Let_def split: option.splits)

theorem stop_when_running_witness:
  "isRunning running_service
   \<and> monitoredTrades running_service = [(''id1'', 0), (''id2'', 1)]
   \<and> monitoringInterval running_service = Some 0
   \<and> dbSyncInterval running_service = Some 1
   \<and> liveTimers running_service = [0, 1]
   \<and> monitoredTrades (stop running_service) = []
   \<and> monitoringInterval (stop running_service) = None
   \<and> dbSyncInterval (stop running_service) = None
   \<and> \<not> isRunning (stop running_service)
   \<and> 0 \<notin> set (liveTimers (stop running_service))
   \<and> 1 \<notin> set (liveTimers (stop running_service))
   \<and> \<not> isRunning eth_service
   \<and> stop eth_service = eth_service"
  using stop_when_running [of running_service] stop_when_running [of eth_service]
  by (simp add: running_service_value eth_service_value)

text \<open>
  A trade added to a service that was never started stays in the registry after \<open>stop\<close>.
\<close>

theorem stop_without_start_keeps_positions:
  "\<not> isRunning eth_service
   \<and> monitoredTrades eth_service = [(''id1'', 0)]
   \<and> monitoredTrades (stop eth_service) = [(''id1'', 0)]"
  by (simp add: eth_service_value stop_def)

section \<open>Overlapping exits\<close>

text \<open>
  An interleaved run in which nothing comes between a call and the settling of its
  collaborators is the call run on its own.
\<close>

lemma run_exit_events:
  assumes "k < length ts" and "ts ! k = AwaitExecuteTrade c r cond"
  shows "run pf (exit_events k env) \<lparr>service = exit_begin r cond svc, tasks = ts\<rparr>
           = \<lparr>service = fst (executeTradeExit pf r cond env svc),
              tasks = ts[k := finish c (snd (executeTradeExit pf r cond env svc))]\<rparr>"
  using assms
  by (auto simp: exit_events_def step_def resume_def on_executed_def on_updated_def Let_def
        exit_catch_def executeTradeExit_def split: option.splits)

lemma run_exit_events_returned:
  assumes "k < length (tasks sys)" and "tasks sys ! k = Returned x"
  shows "run pf (exit_events k env) sys = sys"
  using assms
  by (auto simp: exit_events_def step_def resume_def on_updated_def Let_def list_update_same_conv
           split: option.splits)

lemma run_manual_exit_alone:
  "run pf (ManualExitTrade tid reason # exit_events (length (tasks sys)) env) sys
     = \<lparr>service = fst (manualExitTrade pf tid reason env (service sys)),
        tasks = tasks sys
          @ [Returned (Some (snd (manualExitTrade pf tid reason env (service sys))))]\<rparr>"
proof (cases "find_trade tid (service sys)")
  case None
  have "run pf (exit_events (length (tasks sys)) env)
          \<lparr>service = service sys, tasks = tasks sys @ [Returned (Some False)]\<rparr>
        = \<lparr>service = service sys, tasks = tasks sys @ [Returned (Some False)]\<rparr>"
    by (rule run_exit_events_returned [where x = "Some False"]) simp_all
  with None show ?thesis
    by (simp add: step_def spawn_def manualExitTrade_def Let_def)
next
  case (Some r)
  let ?c = "manual_condition (heap (service sys) ! r)"
  have "run pf (exit_events (length (tasks sys)) env)
          \<lparr>service = exit_begin r ?c (service sys),
           tasks = tasks sys @ [AwaitExecuteTrade ByManual r ?c]\<rparr>
        = \<lparr>service = fst (executeTradeExit pf r ?c env (service sys)),
           tasks = (tasks sys @ [AwaitExecuteTrade ByManual r ?c])
             [length (tasks sys) :=
                finish ByManual (snd (executeTradeExit pf r ?c env (service sys)))]\<rparr>"
    by (rule run_exit_events) simp_all
  with Some show ?thesis
    by (simp add: step_def spawn_def manualExitTrade_found finish_def Let_def)
qed

lemma run_monitor_alone:
  assumes k: "k < length (tasks sys)" and t: "tasks sys ! k = AwaitPrice r"
  shows "service (run pf (PriceSettled k fetched now # exit_events k env) sys)
           = monitorSingleTrade pf r fetched now env (service sys)"
proof -
  have first: "step pf (PriceSettled k fetched now) sys
                 = \<lparr>service = fst (on_price r fetched now (service sys)),
                    tasks = (tasks sys)[k := snd (on_price r fetched now (service sys))]\<rparr>"
    using k t by (simp add: step_def resume_def Let_def)
  have returned: "service (run pf (exit_events k env)
                     \<lparr>service = svc', tasks = (tasks sys)[k := Returned None]\<rparr>) = svc'"
    for svc'
    using k run_exit_events_returned
            [of k "\<lparr>service = svc', tasks = (tasks sys)[k := Returned None]\<rparr>" None pf env]
    by simp
  show ?thesis
  proof (cases fetched)
    case None
    then show ?thesis
      using first returned by (simp add: on_price_def monitorSingleTrade_def)
  next
    case (Some price)
    show ?thesis
    proof (cases "truthy price")
      case False
      with Some show ?thesis
        using first returned by (simp add: on_price_def monitorSingleTrade_def)
    next
      case True
      define svc1 where "svc1 = observe r price now (service sys)"
      define cond where "cond = checkExitConditions (heap svc1 ! r) price now"
      show ?thesis
      proof (cases "triggered cond")
        case False
        with Some True show ?thesis
          using first returned
          by (simp add: on_price_def monitorSingleTrade_def Let_def svc1_def cond_def)
      next
        case trig: True
        have "run pf (exit_events k env)
                \<lparr>service = exit_begin r cond svc1,
                 tasks = (tasks sys)[k := AwaitExecuteTrade ByTick r cond]\<rparr>
              = \<lparr>service = fst (executeTradeExit pf r cond env svc1),
                 tasks = ((tasks sys)[k := AwaitExecuteTrade ByTick r cond])
                   [k := finish ByTick (snd (executeTradeExit pf r cond env svc1))]\<rparr>"
          using k by (intro run_exit_events) simp_all
        with Some True trig show ?thesis
          using first
          by (simp add: on_price_def monitorSingleTrade_def Let_def svc1_def cond_def)
      qed
    qed
  qed
qed

text \<open>
  The exit routine removes the trade from the registry before it calls the executor, so
  a call that looks the trade up afterwards does not find it.
\<close>

lemma exit_begin_removes:
  "\<not> map_has (mongo_id (heap svc ! r)) (monitoredTrades (exit_begin r cond svc))"
  by (simp add: exit_begin_def call_def Let_def map_has_def map_delete_def find_None_iff)

lemma terminal_writes_of_append:
  "terminal_writes_of i (xs @ ys) = terminal_writes_of i xs @ terminal_writes_of i ys"
  by (simp add: terminal_writes_of_def)

text \<open>
  Within one run of the exit routine, a rejected write of status exited is followed by
  a write of status failed for the same \<open>_id\<close>.
\<close>

lemma rejected_write_is_followed_by_another:
  "executeTrade_result env = None \<Longrightarrow> updateExited_result env = Some e \<Longrightarrow>
     terminal_writes_of (mongo_id (heap svc ! r))
         (effects (fst (executeTradeExit pf r cond env svc)))
       = terminal_writes_of (mongo_id (heap svc ! r)) (effects svc)
           @ [UpdateTradeStatus (mongo_id (heap svc ! r)) Exited
                (ExitInfo (exitData_of pf (heap svc ! r) cond (time_exited env))),
              UpdateTradeStatus (mongo_id (heap svc ! r)) Failed
                (FailInfo (message e) (time_failed env))]"
  by (simp add: exit_defs Let_def terminal_writes_of_append split: option.splits)
     (simp add: terminal_writes_of_def)

text \<open>
  \<^bold>\<open>C1.\<close> The exit routine deletes the trade from the registry and goes on whether or
  not the trade was still there, so a call that already holds the trade object exits it
  again. In the run below a price-check tick is waiting for the price of the flow test's
  trade when the operator exits the trade by hand; the price then arrives above \<open>tp1\<close>.
  The executor is called twice for the trade, and status exited is written twice for its
  \<open>_id\<close>.
\<close>

theorem double_exit_under_interleaving:
  "length (executions_of ''test_trade_1''
      (effects (service (run sample_parseFloat double_exit_schedule
                           \<lparr>service = eth_service, tasks = []\<rparr>)))) = 2
   \<and> map fst (recorded_exits
      (effects (service (run sample_parseFloat double_exit_schedule
                           \<lparr>service = eth_service, tasks = []\<rparr>)))) = [''id1'', ''id1'']
   \<and> length (terminal_writes_of ''id1''
      (effects (service (run sample_parseFloat double_exit_schedule
                           \<lparr>service = eth_service, tasks = []\<rparr>)))) = 2"
  by (simp add: double_exit_schedule_def eth_service_value step_defs exit_defs value_defs
        parseFloat_samples double_eval executions_of_def terminal_writes_of_def Let_def
        recorded_exits_simps)

text \<open>
  The same happens when a second price-check tick fires before the first has its price,
  and when the database-sync loop adopts the trade again while its exit is waiting for
  the executor.
\<close>

lemma overlapping_ticks_exit_twice:
  "length (executions_of ''test_trade_1''
      (effects (service (run sample_parseFloat overlapping_ticks_schedule
                           \<lparr>service = eth_service, tasks = []\<rparr>)))) = 2"
  by (simp add: overlapping_ticks_schedule_def eth_service_value step_defs exit_defs value_defs
        parseFloat_samples double_eval executions_of_def Let_def)

lemma readoption_exits_twice:
  "length (executions_of ''test_trade_1''
      (effects (service (run sample_parseFloat readoption_schedule
                           \<lparr>service = eth_service, tasks = []\<rparr>)))) = 2"
  by (simp add: readoption_schedule_def eth_service_value eth_doc_def step_defs exit_defs
        value_defs build_defs parseFloat_samples double_eval executions_of_def Let_def)

end
